theory Spec2Isabelle
  imports Complex_Main
begin

section \<open>Python values\<close>

text \<open>
  A Python \<^verbatim>\<open>str\<close> is modelled as the list of its Unicode code points, so that
  \<open>length\<close> is Python's \<^verbatim>\<open>len\<close>. ASCII literals of the source are written with
  \<open>ascii\<close>; the few non-ASCII characters of the source are given by code point.
\<close>

type_synonym ustr = "nat list"

definition ascii :: "string \<Rightarrow> ustr" where
  "ascii s = map of_char s"

text \<open>
  The values that travel through the agent: JSON produced by the completion service and
  the gateway, the dictionaries the handlers return, and opaque SDK objects (\<open>VObj\<close>).
  A \<^verbatim>\<open>dict\<close> is an association list read through \<open>map_of\<close>.
\<close>

datatype pyval =
    VNone
  | VBool bool
  | VInt int
  | VFloat real
  | VStr ustr
  | VList "pyval list"
  | VDict "(ustr \<times> pyval) list"
  | VObj nat

text \<open>
  Exceptions (all subclasses of \<^verbatim>\<open>Exception\<close>). \<open>ServiceError\<close> stands for any
  exception raised by an external library or service, with its message.
\<close>

datatype exn =
    AttributeError
  | TypeError
  | KeyError ustr
  | IndexError
  | TimeoutError
  | ServiceError ustr

text \<open>Truth value testing (\<^verbatim>\<open>if x\<close>, \<^verbatim>\<open>not x\<close>, \<^verbatim>\<open>x or y\<close>).\<close>

fun truthy :: "pyval \<Rightarrow> bool" where
  "truthy VNone = False"
| "truthy (VBool b) = b"
| "truthy (VInt i) = (i \<noteq> 0)"
| "truthy (VFloat r) = (r \<noteq> 0)"
| "truthy (VStr s) = (s \<noteq> [])"
| "truthy (VList xs) = (xs \<noteq> [])"
| "truthy (VDict d) = (d \<noteq> [])"
| "truthy (VObj n) = True"

definition py_or :: "pyval \<Rightarrow> pyval \<Rightarrow> pyval" where
  "py_or x y = (if truthy x then x else y)"

text \<open>\<^verbatim>\<open>obj.get(key, default)\<close>: only a dict has the method.\<close>

fun py_get :: "pyval \<Rightarrow> ustr \<Rightarrow> pyval \<Rightarrow> exn + pyval" where
  "py_get (VDict d) k dflt = Inr (case map_of d k of Some v \<Rightarrow> v | None \<Rightarrow> dflt)"
| "py_get _ k dflt = Inl AttributeError"

text \<open>Sequencing of computations that may raise.\<close>

definition bindE :: "exn + 'a \<Rightarrow> ('a \<Rightarrow> exn + 'b) \<Rightarrow> exn + 'b" where
  "bindE m f = (case m of Inl e \<Rightarrow> Inl e | Inr x \<Rightarrow> f x)"

section \<open>External collaborators\<close>

text \<open>
  A completion request (\<^verbatim>\<open>openai_client.chat.completions.create\<close>): the model name, the
  \<^verbatim>\<open>tools\<close> keyword when it is passed, the system and user message contents, and whether
  \<^verbatim>\<open>response_format={"type": "json_object"}\<close> is passed.
\<close>

record request =
  req_model :: ustr
  req_tools :: "pyval option"
  req_system :: ustr
  req_user :: pyval
  req_json_object :: bool

text \<open>A completion response: \<^verbatim>\<open>response.choices[i].message.content\<close> and its tool calls.\<close>

record message =
  msg_content :: pyval
  msg_tool_calls :: pyval

record response =
  choices :: "message list"

text \<open>The pending connection request returned by \<^verbatim>\<open>connected_accounts.initiate\<close>.\<close>

record conn_req =
  redirect_url :: pyval
  conn_id :: nat

text \<open>
  Every call that leaves the process is logged, in order: the requests to the completion
  service, to the gateway and to the authentication flow, and the chat turns sent back.
\<close>

datatype call =
    Completion request
  | HandleToolCalls response pyval
  | Initiate pyval pyval
  | WaitForConnection conn_req nat
  | ToolsGet pyval
  | SendAcknowledgement
  | SendChatMessage pyval

type_synonym world = "call list"

text \<open>
  The services and library functions the source calls are parameters of the model. A
  service may answer differently each time, so it sees the log of the calls made so far.
  \<open>py_repr\<close> is \<^verbatim>\<open>str()\<close> on values other than strings, and \<open>str_exn\<close> is
  \<^verbatim>\<open>str(e)\<close>.
\<close>

record env =
  chat_completions_create :: "world \<Rightarrow> request \<Rightarrow> exn + response"
  provider_handle_tool_calls :: "world \<Rightarrow> response \<Rightarrow> pyval \<Rightarrow> exn + pyval"
  connected_accounts_initiate :: "world \<Rightarrow> pyval \<Rightarrow> pyval \<Rightarrow> exn + conn_req"
  wait_for_connection :: "world \<Rightarrow> conn_req \<Rightarrow> nat \<Rightarrow> exn + pyval"
  tools_get :: "world \<Rightarrow> pyval \<Rightarrow> exn + pyval"
  json_loads_str :: "ustr \<Rightarrow> exn + pyval"
  b64decode :: "ustr \<Rightarrow> exn + nat list"
  decode_utf8_ignore :: "nat list \<Rightarrow> ustr"
  re_sub :: "ustr \<Rightarrow> ustr \<Rightarrow> ustr \<Rightarrow> bool \<Rightarrow> ustr"
  fromisoformat :: "ustr \<Rightarrow> exn + pyval"
  strftime :: "pyval \<Rightarrow> ustr \<Rightarrow> exn + ustr"
  py_repr :: "pyval \<Rightarrow> ustr"
  str_exn :: "exn \<Rightarrow> ustr"

definition create_completion :: "env \<Rightarrow> request \<Rightarrow> world \<Rightarrow> (exn + response) \<times> world" where
  "create_completion env req w = (chat_completions_create env w req, w @ [Completion req])"

definition handle_tool_calls :: "env \<Rightarrow> response \<Rightarrow> pyval \<Rightarrow> world \<Rightarrow> (exn + pyval) \<times> world" where
  "handle_tool_calls env r user_id w =
     (provider_handle_tool_calls env w r user_id, w @ [HandleToolCalls r user_id])"

text \<open>\<^verbatim>\<open>response.choices[0].message.content\<close>\<close>

definition first_content :: "response \<Rightarrow> exn + pyval" where
  "first_content r = (case choices r of [] \<Rightarrow> Inl IndexError | m # _ \<Rightarrow> Inr (msg_content m))"

text \<open>\<^verbatim>\<open>json.loads(x)\<close>: anything but text is a \<^verbatim>\<open>TypeError\<close>.\<close>

definition json_loads :: "env \<Rightarrow> pyval \<Rightarrow> exn + pyval" where
  "json_loads env v = (case v of VStr s \<Rightarrow> json_loads_str env s | _ \<Rightarrow> Inl TypeError)"

definition GPT_MODEL :: ustr where
  "GPT_MODEL = ascii ''gpt-4o-mini''"

section \<open>Response refiner and intent classifier\<close>

definition REFINE_SYSTEM_PROMPT :: ustr where
  "REFINE_SYSTEM_PROMPT = ascii
    (''You are a response refiner. Take the raw output from a Gmail operation and format it into a user-friendly response:\<newline>''
     @ ''            - Use bullet points, headers, and emojis for readability.\<newline>''
     @ ''            - Summarize long content, keeping key details.\<newline>''
     @ ''            - Maintain a professional, concise tone.\<newline>''
     @ ''            - Example: For profile, list email, message count, thread count; for labels, confirm creation.\<newline>''
     @ ''            Return the refined response as a string.'')"

definition INTENT_SYSTEM_PROMPT :: ustr where
  "INTENT_SYSTEM_PROMPT = ascii
    (''You are an intent analyzer for Gmail operations. Analyze the user query to determine the intent from the following actions:\<newline>''
     @ ''            - AUTH: For queries like 'authenticate gmail', 'connect gmail', 'login to gmail'\<newline>''
     @ ''            - LIST: List emails, drafts, labels, threads (e.g., 'show emails', 'list drafts')\<newline>''
     @ ''            - SEARCH: Search emails or people, including spam (e.g., 'find emails from john', 'fetch spam mail')\<newline>''
     @ ''            - SEND: Send an email (e.g., 'send email to john@example.com')\<newline>''
     @ ''            - REPLY: Reply to an email/thread (e.g., 'reply to latest email')\<newline>''
     @ ''            - MARK_READ: Mark emails as read (e.g., 'mark email as read')\<newline>''
     @ ''            - MARK_UNREAD: Mark emails as unread (e.g., 'mark email as unread')\<newline>''
     @ ''            - DELETE: Delete emails or drafts, including spam (e.g., 'delete spam emails')\<newline>''
     @ ''            - MOVE_TO_TRASH: Move emails to trash (e.g., 'move emails from john to trash')\<newline>''
     @ ''            - READ: Read emails with full content (e.g., 'read emails from john@example.com')\<newline>''
     @ ''            - GET_PROFILE: Get Gmail profile info (e.g., 'get my profile', 'show profile')\<newline>''
     @ ''            - CREATE_DRAFT: Create a draft email\<newline>''
     @ ''            - SEND_DRAFT: Send an existing draft\<newline>''
     @ ''            - CREATE_LABEL: Create a new label (e.g., 'create a label called fetch.ai')\<newline>''
     @ ''            - ADD_LABEL: Add labels to emails\<newline>''
     @ ''            - REMOVE_LABEL: Remove labels from emails\<newline>''
     @ ''            - MODIFY_THREAD_LABELS: Modify thread labels\<newline>''
     @ ''            - PATCH_LABEL: Update label properties\<newline>''
     @ ''            - GET_CONTACTS: Get contact list (e.g., 'list my contacts')\<newline>''
     @ ''            - SEARCH_PEOPLE: Search for people\<newline>''
     @ ''            - GET_ATTACHMENT: Download email attachments\<newline>''
     @ ''            - LIST_THREADS: List email threads\<newline>''
     @ ''            For SEND, extract recipient, subject, content, context. For CREATE_LABEL, extract label_name. For SEARCH/DELETE/READ/MOVE_TO_TRASH, include 'is_spam: true' for spam-related queries or 'sender' for email-specific queries. For others, extract relevant parameters (e.g., query, email_id, label_id).\<newline>''
     @ ''            Boost confidence (0.8-1.0) for clear matches. If ambiguous, pick best fit but note clarification needed.\<newline>''
     @ ''            Return JSON: {\"intent\": \"ACTION_NAME\", \"parameters\": {...}, \"confidence\": float}'')"


text \<open>\<^verbatim>\<open>refine_response_with_gpt\<close>: the body of the \<^verbatim>\<open>try\<close>, then the handler.\<close>

definition refine_request :: "pyval \<Rightarrow> request" where
  "refine_request raw_response =
     \<lparr>req_model = GPT_MODEL, req_tools = None, req_system = REFINE_SYSTEM_PROMPT,
      req_user = raw_response, req_json_object = False\<rparr>"

definition refine_response_try :: "env \<Rightarrow> pyval \<Rightarrow> world \<Rightarrow> (exn + pyval) \<times> world" where
  "refine_response_try env raw_response w =
     (case create_completion env (refine_request raw_response) w of
        (Inl e, w') \<Rightarrow> (Inl e, w')
      | (Inr response, w') \<Rightarrow> (first_content response, w'))"

definition refine_response_with_gpt :: "env \<Rightarrow> pyval \<Rightarrow> world \<Rightarrow> pyval \<times> world" where
  "refine_response_with_gpt env raw_response w =
     (case refine_response_try env raw_response w of
        (Inr refined, w') \<Rightarrow> (refined, w')
      | (Inl e, w') \<Rightarrow> (raw_response, w'))"

text \<open>\<^verbatim>\<open>analyze_user_intent\<close>\<close>

definition intent_request :: "ustr \<Rightarrow> request" where
  "intent_request message =
     \<lparr>req_model = GPT_MODEL, req_tools = None, req_system = INTENT_SYSTEM_PROMPT,
      req_user = VStr message, req_json_object = True\<rparr>"

definition UNKNOWN_INTENT :: pyval where
  "UNKNOWN_INTENT =
     VDict [(ascii ''intent'', VStr (ascii ''UNKNOWN'')),
            (ascii ''parameters'', VDict []),
            (ascii ''confidence'', VFloat 0)]"

definition analyze_user_intent_try :: "env \<Rightarrow> ustr \<Rightarrow> world \<Rightarrow> (exn + pyval) \<times> world" where
  "analyze_user_intent_try env message w =
     (case create_completion env (intent_request message) w of
        (Inl e, w') \<Rightarrow> (Inl e, w')
      | (Inr response, w') \<Rightarrow> (bindE (first_content response) (json_loads env), w'))"

definition analyze_user_intent :: "env \<Rightarrow> ustr \<Rightarrow> world \<Rightarrow> pyval \<times> world" where
  "analyze_user_intent env message w =
     (case analyze_user_intent_try env message w of
        (Inr v, w') \<Rightarrow> (v, w')
      | (Inl e, w') \<Rightarrow> (UNKNOWN_INTENT, w'))"

section \<open>Python operations used by the formatters and handlers\<close>

text \<open>\<^verbatim>\<open>str(n)\<close> for a natural number and for an integer: decimal digits.\<close>

function str_of_nat :: "nat \<Rightarrow> ustr" where
  "str_of_nat n = (if n < 10 then [48 + n] else str_of_nat (n div 10) @ [48 + n mod 10])"
  by pat_completeness auto
termination
  by (relation "measure id") auto

declare str_of_nat.simps [simp del]

definition str_of_int :: "int \<Rightarrow> ustr" where
  "str_of_int i = (if i < 0 then 45 # str_of_nat (nat (- i)) else str_of_nat (nat i))"

text \<open>
  \<^verbatim>\<open>str(v)\<close>, as an f-string applies it to an interpolated value. What Python prints for
  floats, containers and objects is left to the environment.
\<close>

definition py_str :: "env \<Rightarrow> pyval \<Rightarrow> ustr" where
  "py_str env v =
     (case v of
        VStr s \<Rightarrow> s
      | VNone \<Rightarrow> ascii ''None''
      | VBool b \<Rightarrow> (if b then ascii ''True'' else ascii ''False'')
      | VInt i \<Rightarrow> str_of_int i
      | _ \<Rightarrow> py_repr env v)"

text \<open>\<^verbatim>\<open>sep.join(xs)\<close> on a list of strings, and on a list of arbitrary values.\<close>

fun str_join :: "ustr \<Rightarrow> ustr list \<Rightarrow> ustr" where
  "str_join sep [] = []"
| "str_join sep [x] = x"
| "str_join sep (x # y # ys) = x @ sep @ str_join sep (y # ys)"

fun as_strs :: "pyval list \<Rightarrow> exn + ustr list" where
  "as_strs [] = Inr []"
| "as_strs (VStr s # vs) = bindE (as_strs vs) (\<lambda>ss. Inr (s # ss))"
| "as_strs (_ # vs) = Inl TypeError"

definition py_join :: "ustr \<Rightarrow> pyval list \<Rightarrow> exn + ustr" where
  "py_join sep vs = bindE (as_strs vs) (\<lambda>ss. Inr (str_join sep ss))"

text \<open>\<^verbatim>\<open>s.replace(c, new)\<close> for a one-character \<^verbatim>\<open>c\<close>, the only form the source uses.\<close>

definition str_replace_char :: "nat \<Rightarrow> ustr \<Rightarrow> ustr \<Rightarrow> ustr" where
  "str_replace_char c new s = concat (map (\<lambda>x. if x = c then new else [x]) s)"

definition py_replace_char :: "nat \<Rightarrow> ustr \<Rightarrow> pyval \<Rightarrow> exn + ustr" where
  "py_replace_char c new v =
     (case v of VStr s \<Rightarrow> Inr (str_replace_char c new s) | _ \<Rightarrow> Inl AttributeError)"

text \<open>\<^verbatim>\<open>s.strip()\<close>: the characters for which \<^verbatim>\<open>str.isspace\<close> holds are removed at both ends.\<close>

definition py_isspace :: "nat \<Rightarrow> bool" where
  "py_isspace c \<longleftrightarrow>
     (9 \<le> c \<and> c \<le> 13) \<or> (28 \<le> c \<and> c \<le> 32) \<or> c = 133 \<or> c = 160 \<or> c = 5760
     \<or> (8192 \<le> c \<and> c \<le> 8202) \<or> c = 8232 \<or> c = 8233 \<or> c = 8239 \<or> c = 8287 \<or> c = 12288"

definition str_strip :: "ustr \<Rightarrow> ustr" where
  "str_strip s = rev (dropWhile py_isspace (rev (dropWhile py_isspace s)))"

text \<open>\<^verbatim>\<open>len(v)\<close>\<close>

definition py_len :: "pyval \<Rightarrow> exn + nat" where
  "py_len v =
     (case v of
        VStr s \<Rightarrow> Inr (length s)
      | VList xs \<Rightarrow> Inr (length xs)
      | VDict d \<Rightarrow> Inr (length d)
      | _ \<Rightarrow> Inl TypeError)"

text \<open>
  Iteration (\<^verbatim>\<open>for x in v\<close>): the items of a list, the characters of a string, the keys
  of a dict; anything else is not iterable.
\<close>

definition py_iter :: "pyval \<Rightarrow> exn + pyval list" where
  "py_iter v =
     (case v of
        VList xs \<Rightarrow> Inr xs
      | VStr s \<Rightarrow> Inr (map (\<lambda>c. VStr [c]) s)
      | VDict d \<Rightarrow> Inr (map (\<lambda>kv. VStr (fst kv)) d)
      | _ \<Rightarrow> Inl TypeError)"

text \<open>\<^verbatim>\<open>key in v\<close> for a string \<^verbatim>\<open>key\<close>: a key of a dict, an item of a list, a substring.\<close>

fun is_substring :: "ustr \<Rightarrow> ustr \<Rightarrow> bool" where
  "is_substring k [] = (k = [])"
| "is_substring k (c # cs) = (take (length k) (c # cs) = k \<or> is_substring k cs)"

definition py_contains :: "ustr \<Rightarrow> pyval \<Rightarrow> exn + bool" where
  "py_contains k v =
     (case v of
        VDict d \<Rightarrow> Inr (map_of d k \<noteq> None)
      | VList xs \<Rightarrow> Inr (VStr k \<in> set xs)
      | VStr s \<Rightarrow> Inr (is_substring k s)
      | _ \<Rightarrow> Inl TypeError)"

text \<open>\<^verbatim>\<open>v[key]\<close> for a string \<^verbatim>\<open>key\<close>, and \<^verbatim>\<open>v[0]\<close>.\<close>

definition py_getitem :: "pyval \<Rightarrow> ustr \<Rightarrow> exn + pyval" where
  "py_getitem v k =
     (case v of
        VDict d \<Rightarrow> (case map_of d k of Some x \<Rightarrow> Inr x | None \<Rightarrow> Inl (KeyError k))
      | _ \<Rightarrow> Inl TypeError)"

definition py_index0 :: "pyval \<Rightarrow> exn + pyval" where
  "py_index0 v =
     (case v of
        VList xs \<Rightarrow> (case xs of [] \<Rightarrow> Inl IndexError | x # _ \<Rightarrow> Inr x)
      | VStr s \<Rightarrow> (case s of [] \<Rightarrow> Inl IndexError | c # _ \<Rightarrow> Inr (VStr [c]))
      | VDict d \<Rightarrow> Inl (KeyError (ascii ''0''))
      | _ \<Rightarrow> Inl TypeError)"

text \<open>\<^verbatim>\<open>v[:n]\<close> and \<^verbatim>\<open>v + "..."\<close> (a string can only be added to a string).\<close>

definition py_slice_to :: "nat \<Rightarrow> pyval \<Rightarrow> exn + pyval" where
  "py_slice_to n v =
     (case v of
        VStr s \<Rightarrow> Inr (VStr (take n s))
      | VList xs \<Rightarrow> Inr (VList (take n xs))
      | _ \<Rightarrow> Inl TypeError)"

definition py_add_str :: "pyval \<Rightarrow> ustr \<Rightarrow> exn + pyval" where
  "py_add_str v t = (case v of VStr s \<Rightarrow> Inr (VStr (s @ t)) | _ \<Rightarrow> Inl TypeError)"

text \<open>Collecting the lines produced for each item of a loop; the first exception ends the loop.\<close>

fun collect :: "('a \<Rightarrow> exn + 'b list) \<Rightarrow> 'a list \<Rightarrow> exn + 'b list" where
  "collect f [] = Inr []"
| "collect f (x # xs) = bindE (f x) (\<lambda>ls. bindE (collect f xs) (\<lambda>rest. Inr (ls @ rest)))"

section \<open>Result formatter\<close>

text \<open>
  The methods of \<^verbatim>\<open>GmailAgent\<close> keep their names without the leading underscore. The
  non-ASCII characters of the report lines are written as code points (for example
  128231 is the e-mail sign, 10060 the cross mark, 9989 the check mark).
\<close>

definition DATE_FORMAT :: ustr where
  "DATE_FORMAT = ascii ''%Y-%m-%d %H:%M''"

text \<open>
  The timestamp block shared by the three list formatters: a date that is present is
  reformatted, and on any failure (the bare \<^verbatim>\<open>except\<close>) the raw value is shown.
\<close>

definition format_timestamp :: "env \<Rightarrow> pyval \<Rightarrow> pyval" where
  "format_timestamp env date =
     (if truthy date then
        (case bindE (py_replace_char 90 (ascii ''+00:00'') date)
                (\<lambda>s. bindE (fromisoformat env s) (\<lambda>dt. strftime env dt DATE_FORMAT)) of
           Inr t \<Rightarrow> VStr t
         | Inl e \<Rightarrow> date)
      else VStr (ascii ''Unknown Date''))"

text \<open>
  \<^verbatim>\<open>if len(preview) > budget: preview = preview[:budget] + "..."\<close>, as written in
  \<^verbatim>\<open>_format_emails\<close> (200), \<^verbatim>\<open>_format_emails_with_full_content\<close> (1000) and
  \<^verbatim>\<open>_format_drafts\<close> (150).
\<close>

definition truncate_preview :: "nat \<Rightarrow> pyval \<Rightarrow> exn + pyval" where
  "truncate_preview budget preview =
     bindE (py_len preview) (\<lambda>n.
       if n > budget then bindE (py_slice_to budget preview) (\<lambda>p. py_add_str p (ascii ''...''))
       else Inr preview)"

text \<open>\<^verbatim>\<open>_format_emails\<close>: the body of the loop, then the method.\<close>

definition format_email :: "env \<Rightarrow> nat \<times> pyval \<Rightarrow> exn + ustr list" where
  "format_email env im =
     (case im of (i, msg) \<Rightarrow>
        bindE (py_get msg (ascii ''subject'') (VStr (ascii ''No Subject''))) (\<lambda>subject.
        bindE (py_get msg (ascii ''sender'') (VStr (ascii ''Unknown Sender''))) (\<lambda>sender.
        bindE (py_get msg (ascii ''messageTimestamp'') (VStr [])) (\<lambda>date.
        bindE (bindE (py_get msg (ascii ''preview'') (VDict []))
                 (\<lambda>p. py_get p (ascii ''body'') (VStr []))) (\<lambda>preview.
        bindE (if truthy preview
               then bindE (truncate_preview 200 preview)
                      (\<lambda>p. Inr [128221 # ascii '' Preview: '' @ py_str env p])
               else Inr []) (\<lambda>preview_line.
        Inr ([10 # 128232 # ascii '' Email #'' @ str_of_nat i,
              128203 # ascii '' Subject: '' @ py_str env subject,
              128100 # ascii '' From: '' @ py_str env sender,
              128197 # ascii '' Date: '' @ py_str env (format_timestamp env date)]
             @ preview_line @ [replicate 40 45])))))))"

definition format_emails :: "env \<Rightarrow> pyval \<Rightarrow> exn + ustr list" where
  "format_emails env messages =
     (if \<not> truthy messages
      then Inr [128237 # ascii '' No emails found matching your criteria.'']
      else
        bindE (py_len messages) (\<lambda>n.
        bindE (py_iter messages) (\<lambda>msgs.
        bindE (collect (format_email env) (enumerate 1 msgs)) (\<lambda>body.
        Inr ([128231 # ascii '' Found '' @ str_of_nat n @ ascii '' email(s):'',
              replicate 60 61] @ body)))))"

text \<open>\<^verbatim>\<open>_clean_email_text\<close>; the two patterns are \<^verbatim>\<open>\n\s*\n\<close> and \<^verbatim>\<open> +\<close>.\<close>

definition BLANK_LINES_RE :: ustr where
  "BLANK_LINES_RE = [92] @ ascii ''n'' @ [92] @ ascii ''s*'' @ [92] @ ascii ''n''"

definition clean_email_text :: "env \<Rightarrow> ustr \<Rightarrow> ustr" where
  "clean_email_text env text =
     (if text = [] then []
      else str_strip (re_sub env (ascii '' +'') (ascii '' '')
                        (re_sub env BLANK_LINES_RE [10, 10] text False) False))"

text \<open>
  The base64url step of \<^verbatim>\<open>_extract_email_content\<close>, written three times in the source:
  \<^verbatim>\<open>-\<close> becomes \<^verbatim>\<open>+\<close>, \<^verbatim>\<open>_\<close> becomes \<^verbatim>\<open>/\<close>, \<^verbatim>\<open>=\<close> is appended while the length is
  not a multiple of four, and the result is decoded and read as UTF-8.
\<close>

function pad4 :: "ustr \<Rightarrow> ustr" where
  "pad4 s = (if length s mod 4 \<noteq> 0 then pad4 (s @ [61]) else s)"
  by pat_completeness auto
termination
proof (relation "measure (\<lambda>s. (4 - length s mod 4) mod 4)")
  show "wf (measure (\<lambda>s::ustr. (4 - length s mod 4) mod 4))" by simp
next
  fix s :: ustr
  assume "length s mod 4 \<noteq> 0"
  moreover have "length s mod 4 < 4" by simp
  ultimately have "length s mod 4 = 1 \<or> length s mod 4 = 2 \<or> length s mod 4 = 3"
    by linarith
  then have "(4 - Suc (length s) mod 4) mod 4 < (4 - length s mod 4) mod 4"
    by (auto simp add: mod_Suc)
  then show "(s @ [61], s) \<in> measure (\<lambda>s. (4 - length s mod 4) mod 4)"
    by simp
qed

declare pad4.simps [simp del]

definition b64url_prepare :: "ustr \<Rightarrow> ustr" where
  "b64url_prepare s = pad4 (str_replace_char 95 [47] (str_replace_char 45 [43] s))"

definition decode_body_data :: "env \<Rightarrow> pyval \<Rightarrow> exn + ustr" where
  "decode_body_data env body_data =
     (case body_data of
        VStr s \<Rightarrow> bindE (b64decode env (b64url_prepare s)) (\<lambda>bytes. Inr (decode_utf8_ignore env bytes))
      | _ \<Rightarrow> Inl AttributeError)"

definition TAG_RE :: ustr where
  "TAG_RE = ascii ''<[^<]+?>''"

fun extract_from_parts :: "env \<Rightarrow> pyval list \<Rightarrow> exn + ustr option" where
  "extract_from_parts env [] = Inr None"
| "extract_from_parts env (part # parts) =
     bindE (py_get part (ascii ''mimeType'') VNone) (\<lambda>mime.
       if mime = VStr (ascii ''text/plain'') then
         bindE (bindE (py_get part (ascii ''body'') (VDict []))
                  (\<lambda>b. py_get b (ascii ''data'') (VStr []))) (\<lambda>body_data.
           if truthy body_data
           then bindE (decode_body_data env body_data)
                  (\<lambda>decoded. Inr (Some (clean_email_text env decoded)))
           else extract_from_parts env parts)
       else if mime = VStr (ascii ''text/html'') then
         bindE (bindE (py_get part (ascii ''body'') (VDict []))
                  (\<lambda>b. py_get b (ascii ''data'') (VStr []))) (\<lambda>body_data.
           if truthy body_data
           then bindE (decode_body_data env body_data)
                  (\<lambda>decoded. Inr (Some (clean_email_text env (re_sub env TAG_RE [] decoded False))))
           else extract_from_parts env parts)
       else extract_from_parts env parts)"

definition extract_email_content_try :: "env \<Rightarrow> pyval \<Rightarrow> exn + ustr" where
  "extract_email_content_try env msg =
     bindE (py_get msg (ascii ''payload'') (VDict [])) (\<lambda>payload.
     bindE (py_get payload (ascii ''parts'') (VList [])) (\<lambda>parts.
     bindE (py_iter parts) (\<lambda>ps.
     bindE (extract_from_parts env ps) (\<lambda>found.
       case found of
         Some text \<Rightarrow> Inr text
       | None \<Rightarrow>
           bindE (py_get payload (ascii ''body'') (VDict [])) (\<lambda>body.
           bindE (py_get body (ascii ''data'') VNone) (\<lambda>d.
             if truthy d
             then bindE (bindE (py_getitem body (ascii ''data'')) (decode_body_data env))
                    (\<lambda>decoded. Inr (clean_email_text env decoded))
             else Inr []))))))"

definition extract_email_content :: "env \<Rightarrow> pyval \<Rightarrow> ustr" where
  "extract_email_content env msg =
     (case extract_email_content_try env msg of Inr text \<Rightarrow> text | Inl e \<Rightarrow> [])"

text \<open>\<^verbatim>\<open>_format_emails_with_full_content\<close>\<close>

definition format_email_full :: "env \<Rightarrow> nat \<times> pyval \<Rightarrow> exn + ustr list" where
  "format_email_full env im =
     (case im of (i, msg) \<Rightarrow>
        bindE (py_get msg (ascii ''subject'') (VStr (ascii ''No Subject''))) (\<lambda>subject.
        bindE (py_get msg (ascii ''sender'') (VStr (ascii ''Unknown Sender''))) (\<lambda>sender.
        bindE (py_get msg (ascii ''messageTimestamp'') (VStr [])) (\<lambda>date.
        let content = VStr (extract_email_content env msg) in
        bindE (if truthy content
               then bindE (truncate_preview 1000 content)
                      (\<lambda>c. Inr [128221 # ascii '' Full Content: '' @ py_str env c])
               else Inr [128221 # ascii '' No content available'']) (\<lambda>content_line.
        Inr ([10 # 128232 # ascii '' Email #'' @ str_of_nat i,
              128203 # ascii '' Subject: '' @ py_str env subject,
              128100 # ascii '' From: '' @ py_str env sender,
              128197 # ascii '' Date: '' @ py_str env (format_timestamp env date)]
             @ content_line @ [replicate 40 45]))))))"

definition format_emails_with_full_content :: "env \<Rightarrow> pyval \<Rightarrow> exn + ustr" where
  "format_emails_with_full_content env messages =
     (if \<not> truthy messages
      then Inr (128237 # ascii '' No emails found matching your criteria.'')
      else
        bindE (py_len messages) (\<lambda>n.
        bindE (py_iter messages) (\<lambda>msgs.
        bindE (collect (format_email_full env) (enumerate 1 msgs)) (\<lambda>body.
        Inr (str_join [10]
               ([128231 # ascii '' Found '' @ str_of_nat n @ ascii '' email(s):'',
                 replicate 60 61] @ body))))))"

text \<open>\<^verbatim>\<open>_format_drafts\<close>\<close>

definition format_draft :: "env \<Rightarrow> nat \<times> pyval \<Rightarrow> exn + ustr list" where
  "format_draft env idr =
     (case idr of (i, draft) \<Rightarrow>
        bindE (py_get draft (ascii ''message'') (VDict [])) (\<lambda>message.
        bindE (py_get message (ascii ''subject'') (VStr (ascii ''No Subject''))) (\<lambda>subject.
        bindE (py_get message (ascii ''messageTimestamp'') (VStr [])) (\<lambda>date.
        bindE (bindE (py_get message (ascii ''preview'') (VDict []))
                 (\<lambda>p. py_get p (ascii ''body'') (VStr []))) (\<lambda>preview.
        bindE (if truthy preview
               then bindE (truncate_preview 150 preview)
                      (\<lambda>p. Inr [128196 # ascii '' Content: '' @ py_str env p])
               else Inr []) (\<lambda>preview_line.
        Inr ([10 # 128221 # ascii '' Draft #'' @ str_of_nat i,
              128203 # ascii '' Subject: '' @ py_str env subject,
              128197 # ascii '' Created: '' @ py_str env (format_timestamp env date)]
             @ preview_line @ [replicate 30 45])))))))"

definition format_drafts :: "env \<Rightarrow> pyval \<Rightarrow> exn + ustr list" where
  "format_drafts env drafts =
     (if \<not> truthy drafts
      then Inr [128221 # ascii '' No drafts found.'']
      else
        bindE (py_len drafts) (\<lambda>n.
        bindE (py_iter drafts) (\<lambda>ds.
        bindE (collect (format_draft env) (enumerate 1 ds)) (\<lambda>body.
        Inr ([128221 # ascii '' Found '' @ str_of_nat n @ ascii '' draft(s):'',
              replicate 50 61] @ body)))))"

text \<open>\<^verbatim>\<open>_format_labels\<close>: the two list comprehensions, the line of a label, the method.\<close>

fun select_labels :: "bool \<Rightarrow> pyval list \<Rightarrow> exn + pyval list" where
  "select_labels system [] = Inr []"
| "select_labels system (label # labels) =
     bindE (py_get label (ascii ''type'') VNone) (\<lambda>t.
     bindE (select_labels system labels) (\<lambda>rest.
       Inr (if (t = VStr (ascii ''system'')) = system then label # rest else rest)))"

definition format_label :: "env \<Rightarrow> pyval \<Rightarrow> exn + ustr list" where
  "format_label env label =
     bindE (py_get label (ascii ''name'') (VStr (ascii ''Unknown'')))
       (\<lambda>name. Inr [ascii ''  '' @ [8226] @ ascii '' '' @ py_str env name])"

definition format_labels :: "env \<Rightarrow> pyval \<Rightarrow> exn + ustr list" where
  "format_labels env labels =
     (if \<not> truthy labels
      then Inr [[127991, 65039] @ ascii '' No labels found.'']
      else
        bindE (py_len labels) (\<lambda>n.
        bindE (bindE (py_iter labels) (select_labels True)) (\<lambda>system_labels.
        bindE (bindE (py_iter labels) (select_labels False)) (\<lambda>user_labels.
        bindE (if system_labels \<noteq> []
               then bindE (collect (format_label env) system_labels)
                      (\<lambda>ls. Inr ((10 # 128203 # ascii '' System Labels:'') # ls))
               else Inr []) (\<lambda>system_lines.
        bindE (if user_labels \<noteq> []
               then bindE (collect (format_label env) user_labels)
                      (\<lambda>ls. Inr ((10 # 128100 # ascii '' Your Labels:'') # ls))
               else Inr []) (\<lambda>user_lines.
        Inr ([[127991, 65039] @ ascii '' Found '' @ str_of_nat n @ ascii '' label(s):'',
              replicate 40 61] @ system_lines @ user_lines)))))))"

text \<open>\<^verbatim>\<open>_format_contacts\<close>: it returns one string, and catches its own exceptions.\<close>

definition first_field :: "pyval \<Rightarrow> ustr \<Rightarrow> ustr \<Rightarrow> exn + pyval" where
  "first_field xs k dflt =
     (if truthy xs then bindE (py_index0 xs) (\<lambda>x. py_get x k (VStr dflt)) else Inr (VStr dflt))"

definition format_contact :: "env \<Rightarrow> nat \<times> pyval \<Rightarrow> exn + ustr list" where
  "format_contact env ip =
     (case ip of (i, person) \<Rightarrow>
        bindE (py_get person (ascii ''names'') (VList [])) (\<lambda>names.
        bindE (py_get person (ascii ''emailAddresses'') (VList [])) (\<lambda>emails.
        bindE (first_field names (ascii ''displayName'') (ascii ''Unknown'')) (\<lambda>name.
        bindE (first_field emails (ascii ''value'') (ascii ''No email'')) (\<lambda>email.
        Inr [10 # 128100 # ascii '' Contact #'' @ str_of_nat i,
             128219 # ascii '' Name: '' @ py_str env name,
             128231 # ascii '' Email: '' @ py_str env email,
             replicate 30 45])))))"

definition format_contacts_try :: "env \<Rightarrow> pyval \<Rightarrow> exn + ustr" where
  "format_contacts_try env response_data =
     (if \<not> truthy response_data then Inr (128101 # ascii '' No contacts found.'')
      else
        bindE (py_contains (ascii ''connections'') response_data) (\<lambda>has.
          if \<not> has then Inr (128101 # ascii '' No contacts found.'')
          else
            bindE (py_get response_data (ascii ''connections'') (VList [])) (\<lambda>connections.
            bindE (py_len connections) (\<lambda>n.
            bindE (py_iter connections) (\<lambda>ps.
            bindE (collect (format_contact env) (enumerate 1 ps)) (\<lambda>body.
            Inr (str_join [10]
                   ([128101 # ascii '' Found '' @ str_of_nat n @ ascii '' contact(s):'',
                     replicate 40 61] @ body))))))))"

definition format_contacts :: "env \<Rightarrow> pyval \<Rightarrow> ustr" where
  "format_contacts env response_data =
     (case format_contacts_try env response_data of
        Inr text \<Rightarrow> text
      | Inl e \<Rightarrow> ascii ''Error formatting contacts: '' @ str_exn env e)"

text \<open>\<^verbatim>\<open>_format_profile\<close>\<close>

definition format_profile_try :: "env \<Rightarrow> pyval \<Rightarrow> exn + ustr" where
  "format_profile_try env profile_data =
     (if \<not> truthy profile_data then Inr (128100 # ascii '' No profile data found.'')
      else
        bindE (py_get profile_data (ascii ''emailAddress'') (VStr (ascii ''Unknown''))) (\<lambda>email_address.
        bindE (py_get profile_data (ascii ''messagesTotal'') (VInt 0)) (\<lambda>messages_total.
        bindE (py_get profile_data (ascii ''threadsTotal'') (VInt 0)) (\<lambda>threads_total.
        bindE (py_get profile_data (ascii ''historyId'') (VStr (ascii ''N/A''))) (\<lambda>history_id.
        Inr (str_join [10]
               [128100 # ascii '' Gmail Profile Information:'',
                replicate 40 61,
                128231 # ascii '' Email Address: '' @ py_str env email_address,
                128236 # ascii '' Total Messages: '' @ py_str env messages_total,
                129525 # ascii '' Total Threads: '' @ py_str env threads_total,
                [128368, 65039] @ ascii '' History ID: '' @ py_str env history_id]))))))"

definition format_profile :: "env \<Rightarrow> pyval \<Rightarrow> ustr" where
  "format_profile env profile_data =
     (case format_profile_try env profile_data of
        Inr text \<Rightarrow> text
      | Inl e \<Rightarrow> ascii ''Error formatting profile: '' @ str_exn env e)"

text \<open>
  \<^verbatim>\<open>_format_result\<close>: what one item of the gateway's result contributes to the report,
  then the method. \<^verbatim>\<open>extend\<close> with the string that \<^verbatim>\<open>_format_contacts\<close> returns adds
  its characters one by one.
\<close>

definition OPERATION_OK :: ustr where
  "OPERATION_OK = 9989 # ascii '' Operation completed successfully''"

definition format_item :: "env \<Rightarrow> pyval \<Rightarrow> exn + ustr list" where
  "format_item env item =
     bindE (py_get item (ascii ''successful'') (VBool False)) (\<lambda>successful.
       if \<not> truthy successful then
         bindE (py_get item (ascii ''error'') (VStr (ascii ''Unknown error'')))
           (\<lambda>err. Inr [10060 # ascii '' Error: '' @ py_str env err])
       else
         bindE (py_get item (ascii ''data'') (VDict [])) (\<lambda>data.
         bindE (py_contains (ascii ''messages'') data) (\<lambda>has_messages.
           if has_messages then bindE (py_getitem data (ascii ''messages'')) (format_emails env)
           else
         bindE (py_contains (ascii ''drafts'') data) (\<lambda>has_drafts.
           if has_drafts then bindE (py_getitem data (ascii ''drafts'')) (format_drafts env)
           else
         bindE (py_contains (ascii ''labels'') data) (\<lambda>has_labels.
           if has_labels then bindE (py_getitem data (ascii ''labels'')) (format_labels env)
           else
         bindE (py_contains (ascii ''response_data'') data) (\<lambda>has_response_data.
           if has_response_data
           then bindE (py_getitem data (ascii ''response_data''))
                  (\<lambda>rd. Inr (map (\<lambda>c. [c]) (format_contacts env rd)))
           else
         bindE (py_contains (ascii ''emailAddress'') data) (\<lambda>has_email_address.
           if has_email_address then Inr [format_profile env data]
           else Inr [OPERATION_OK])))))))"

definition is_list :: "pyval \<Rightarrow> bool" where
  "is_list v = (case v of VList xs \<Rightarrow> True | _ \<Rightarrow> False)"

definition format_result_try :: "env \<Rightarrow> pyval \<Rightarrow> ustr \<Rightarrow> exn + ustr" where
  "format_result_try env result query =
     (if \<not> truthy result \<or> \<not> is_list result
      then Inr (ascii ''No data returned from the operation.'')
      else
        bindE (bindE (py_iter result) (collect (format_item env))) (\<lambda>formatted_output.
          Inr (if formatted_output \<noteq> [] then str_join [10] formatted_output else OPERATION_OK)))"

definition format_result :: "env \<Rightarrow> pyval \<Rightarrow> ustr \<Rightarrow> ustr" where
  "format_result env result query =
     (case format_result_try env result query of
        Inr text \<Rightarrow> text
      | Inl e \<Rightarrow> ascii ''Error formatting result: '' @ str_exn env e)"

section \<open>Session state\<close>

text \<open>
  The fields of \<^verbatim>\<open>GmailAgent\<close> that change or are read: the account, the auth-config
  reference, the tool handles, the active connection and the pending connection request
  (\<^verbatim>\<open>None\<close> is \<open>VNone\<close>, respectively \<open>None\<close>). The two clients are the environment.
\<close>

record session =
  user_email :: pyval
  auth_config_id :: pyval
  tools :: pyval
  connected_account :: pyval
  connection_request :: "conn_req option"

definition gmail_tools :: "ustr list" where
  "gmail_tools = map ascii
     [''GMAIL_CREATE_EMAIL_DRAFT'', ''GMAIL_DELETE_DRAFT'', ''GMAIL_DELETE_MESSAGE'',
      ''GMAIL_FETCH_EMAILS'', ''GMAIL_FETCH_MESSAGE_BY_MESSAGE_ID'', ''GMAIL_GET_ATTACHMENT'',
      ''GMAIL_LIST_DRAFTS'', ''GMAIL_MOVE_TO_TRASH'', ''GMAIL_PATCH_LABEL'',
      ''GMAIL_REPLY_TO_THREAD'', ''GMAIL_SEARCH_PEOPLE'', ''GMAIL_SEND_DRAFT'',
      ''GMAIL_SEND_EMAIL'', ''GMAIL_ADD_LABEL_TO_EMAIL'', ''GMAIL_CREATE_LABEL'',
      ''GMAIL_FETCH_MESSAGE_BY_THREAD_ID'', ''GMAIL_GET_CONTACTS'', ''GMAIL_GET_PEOPLE'',
      ''GMAIL_GET_PROFILE'', ''GMAIL_LIST_LABELS'', ''GMAIL_LIST_THREADS'',
      ''GMAIL_MODIFY_THREAD_LABELS'', ''GMAIL_REMOVE_LABEL'', ''GMAIL_REPLY_TO_EMAIL'',
      ''GMAIL_MARK_AS_READ'', ''GMAIL_MARK_AS_UNREAD'', ''GMAIL_SEARCH_EMAILS'',
      ''GMAIL_CREATE_DRAFT'']"

definition is_authenticated :: "session \<Rightarrow> bool" where
  "is_authenticated s \<longleftrightarrow> connected_account s \<noteq> VNone \<and> tools s \<noteq> VNone"

section \<open>Operation handlers\<close>

text \<open>
  A handler threads the log of external calls and may raise; \<open>bindW\<close> sequences such
  steps, \<open>pureW\<close> lifts a step without effect and \<open>totalW\<close> one that cannot raise.
\<close>

definition bindW ::
  "(world \<Rightarrow> (exn + 'a) \<times> world) \<Rightarrow> ('a \<Rightarrow> world \<Rightarrow> (exn + 'b) \<times> world) \<Rightarrow>
   world \<Rightarrow> (exn + 'b) \<times> world" where
  "bindW m f w = (case m w of (Inl e, w') \<Rightarrow> (Inl e, w') | (Inr x, w') \<Rightarrow> f x w')"

definition pureW :: "exn + 'a \<Rightarrow> world \<Rightarrow> (exn + 'a) \<times> world" where
  "pureW r w = (r, w)"

definition totalW :: "(world \<Rightarrow> 'a \<times> world) \<Rightarrow> world \<Rightarrow> (exn + 'a) \<times> world" where
  "totalW m w = (case m w of (x, w') \<Rightarrow> (Inr x, w'))"

text \<open>Equality of values (\<^verbatim>\<open>==\<close>): numbers by value, containers by content.\<close>

definition num_val :: "pyval \<Rightarrow> real option" where
  "num_val v =
     (case v of
        VBool b \<Rightarrow> Some (if b then 1 else 0)
      | VInt i \<Rightarrow> Some (real_of_int i)
      | VFloat r \<Rightarrow> Some r
      | _ \<Rightarrow> None)"

fun py_eq :: "pyval \<Rightarrow> pyval \<Rightarrow> bool" where
  "py_eq (VList xs) (VList ys) = list_all2 py_eq xs ys"
| "py_eq (VDict d) (VDict e) =
     (length d = length e \<and>
      list_all (\<lambda>kv. case map_of e (fst kv) of None \<Rightarrow> False | Some v \<Rightarrow> py_eq (snd kv) v) d)"
| "py_eq a b =
     (case (num_val a, num_val b) of
        (Some x, Some y) \<Rightarrow> x = y
      | (None, None) \<Rightarrow> a = b
      | _ \<Rightarrow> False)"

text \<open>\<^verbatim>\<open>compose_email_with_ai\<close>\<close>

definition COMPOSE_SYSTEM_PROMPT :: ustr where
  "COMPOSE_SYSTEM_PROMPT = ascii
    (''You are a professional email writing assistant. Compose clear, professional emails based on user input.\<newline>''
     @ ''            Guidelines:\<newline>''
     @ ''            - Use a professional but friendly tone\<newline>''
     @ ''            - Include proper greeting and closing\<newline>''
     @ ''            - Make the email clear and concise\<newline>''
     @ ''            - Adapt formality based on recipient and context\<newline>''
     @ ''            - If no subject is provided, create an appropriate one\<newline>''
     @ ''            - Expand minimal content professionally\<newline>''
     @ ''            Return JSON: {\"subject\": \"Subject line\", \"body\": \"Email body\"}'')"

definition compose_user_prompt :: "env \<Rightarrow> pyval \<Rightarrow> pyval \<Rightarrow> pyval \<Rightarrow> pyval \<Rightarrow> ustr" where
  "compose_user_prompt env recipient subject content context =
     ascii ''Compose an email for:\<newline>''
     @ replicate 12 32 @ ascii ''- Recipient: '' @ py_str env recipient @ [10]
     @ replicate 12 32 @ ascii ''- Subject: ''
       @ py_str env (py_or subject (VStr (ascii ''Please create an appropriate subject''))) @ [10]
     @ replicate 12 32 @ ascii ''- Content/Context: '' @ py_str env (py_or content context) @ [10]
     @ replicate 12 32 @ ascii ''- Additional context: ''
       @ py_str env (if \<not> py_eq context content then context else VStr [])"

definition compose_request :: "env \<Rightarrow> pyval \<Rightarrow> pyval \<Rightarrow> pyval \<Rightarrow> pyval \<Rightarrow> request" where
  "compose_request env recipient subject content context =
     \<lparr>req_model = GPT_MODEL, req_tools = None, req_system = COMPOSE_SYSTEM_PROMPT,
      req_user = VStr (compose_user_prompt env recipient subject content context),
      req_json_object = True\<rparr>"

definition compose_email_try ::
  "env \<Rightarrow> pyval \<Rightarrow> pyval \<Rightarrow> pyval \<Rightarrow> pyval \<Rightarrow> world \<Rightarrow> (exn + pyval) \<times> world" where
  "compose_email_try env recipient subject content context =
     bindW (create_completion env (compose_request env recipient subject content context))
       (\<lambda>response. pureW (bindE (first_content response) (json_loads env)))"

definition compose_email_with_ai ::
  "env \<Rightarrow> pyval \<Rightarrow> pyval \<Rightarrow> pyval \<Rightarrow> pyval \<Rightarrow> world \<Rightarrow> pyval \<times> world" where
  "compose_email_with_ai env recipient subject content context w =
     (case compose_email_try env recipient subject content context w of
        (Inr composed, w') \<Rightarrow> (composed, w')
      | (Inl e, w') \<Rightarrow>
          (VDict [(ascii ''subject'', py_or subject (VStr (ascii ''Message''))),
                  (ascii ''body'', py_or content
                     (VStr (ascii ''Hello,\<newline>\<newline>I hope this email finds you well.\<newline>\<newline>Best regards'')))],
           w'))"

text \<open>
  The two calls every handler makes: a completion request carrying the tool handles, then
  the execution of its tool calls by the gateway on behalf of the account.
\<close>

definition tool_request :: "session \<Rightarrow> ustr \<Rightarrow> ustr \<Rightarrow> request" where
  "tool_request s system_content prompt =
     \<lparr>req_model = GPT_MODEL, req_tools = Some (tools s), req_system = system_content,
      req_user = VStr prompt, req_json_object = False\<rparr>"

definition run_tools ::
  "env \<Rightarrow> session \<Rightarrow> ustr \<Rightarrow> ustr \<Rightarrow> world \<Rightarrow> (exn + pyval) \<times> world" where
  "run_tools env s system_content prompt =
     bindW (create_completion env (tool_request s system_content prompt))
       (\<lambda>response. handle_tool_calls env response (user_email s))"

text \<open>The \<^verbatim>\<open>except Exception as e\<close> clause shared by the ten handlers.\<close>

definition failure_result :: "env \<Rightarrow> exn \<Rightarrow> pyval" where
  "failure_result env e =
     VDict [(ascii ''success'', VBool False), (ascii ''error'', VStr (str_exn env e))]"

definition catch_handler :: "env \<Rightarrow> (exn + pyval) \<times> world \<Rightarrow> pyval \<times> world" where
  "catch_handler env rw =
     (case rw of (Inr result, w') \<Rightarrow> (result, w') | (Inl e, w') \<Rightarrow> (failure_result env e, w'))"

text \<open>The result a handler returns after the gateway call: format, refine, build the dict.\<close>

definition success_result :: "ustr \<Rightarrow> ustr \<Rightarrow> pyval \<Rightarrow> pyval \<Rightarrow> pyval" where
  "success_result query intent result refined_result =
     VDict [(ascii ''success'', VBool True),
            (ascii ''query'', VStr query),
            (ascii ''intent'', VStr intent),
            (ascii ''result'', result),
            (ascii ''formatted_result'', refined_result)]"

text \<open>\<^verbatim>\<open>_handle_send_email\<close>\<close>

definition handle_send_email_try ::
  "env \<Rightarrow> session \<Rightarrow> pyval \<Rightarrow> world \<Rightarrow> (exn + pyval) \<times> world" where
  "handle_send_email_try env s parameters =
     bindW (pureW (py_get parameters (ascii ''recipient'') (VStr []))) (\<lambda>recipient.
       if \<not> truthy recipient
       then pureW (Inr (VDict [(ascii ''error'', VStr (ascii ''No recipient specified''))]))
       else
         bindW (pureW (py_get parameters (ascii ''subject'') (VStr []))) (\<lambda>subject.
         bindW (pureW (py_get parameters (ascii ''content'') (VStr []))) (\<lambda>content.
         bindW (pureW (py_get parameters (ascii ''context'') (VStr []))) (\<lambda>context.
         bindW (totalW (compose_email_with_ai env recipient subject content context)) (\<lambda>composed_email.
         bindW (pureW (py_getitem composed_email (ascii ''subject''))) (\<lambda>composed_subject.
         bindW (pureW (py_getitem composed_email (ascii ''body''))) (\<lambda>composed_body.
         bindW (run_tools env s (ascii ''Use GMAIL_SEND_EMAIL to send emails.'')
                  (ascii ''Send an email to '' @ py_str env recipient @ ascii '' with:\<newline>''
                   @ replicate 12 32 @ ascii ''Subject: '' @ py_str env composed_subject @ [10]
                   @ replicate 12 32 @ ascii ''Body: '' @ py_str env composed_body)) (\<lambda>result.
         bindW (totalW (refine_response_with_gpt env
                  (VStr (format_result env result (ascii ''Send email to '' @ py_str env recipient)))))
           (\<lambda>refined_result.
         pureW (Inr (VDict
           [(ascii ''success'', VBool True),
            (ascii ''query'', VStr (ascii ''Send email to '' @ py_str env recipient)),
            (ascii ''intent'', VStr (ascii ''SEND'')),
            (ascii ''result'', result),
            (ascii ''composed_email'', composed_email),
            (ascii ''formatted_result'', refined_result)])))))))))))"

definition handle_send_email :: "env \<Rightarrow> session \<Rightarrow> pyval \<Rightarrow> world \<Rightarrow> pyval \<times> world" where
  "handle_send_email env s parameters w = catch_handler env (handle_send_email_try env s parameters w)"

text \<open>
  The search expression built by \<^verbatim>\<open>_handle_search_emails\<close>, \<^verbatim>\<open>_handle_move_to_trash\<close> and
  \<^verbatim>\<open>_handle_read_email\<close>: the fragments, then \<^verbatim>\<open>" ".join\<close> or the default.
\<close>

definition query_fragments :: "env \<Rightarrow> pyval \<Rightarrow> exn + pyval list" where
  "query_fragments env parameters =
     bindE (py_get parameters (ascii ''sender'') VNone) (\<lambda>sender.
     bindE (py_get parameters (ascii ''subject'') VNone) (\<lambda>subject.
     bindE (py_get parameters (ascii ''query'') VNone) (\<lambda>query.
       Inr ((if truthy sender then [VStr (ascii ''from:'' @ py_str env sender)] else [])
            @ (if truthy subject then [VStr (ascii ''subject:'' @ py_str env subject)] else [])
            @ (if truthy query then [query] else [])))))"

definition join_query :: "pyval list \<Rightarrow> exn + ustr" where
  "join_query query_parts =
     (if query_parts \<noteq> [] then py_join (ascii '' '') query_parts else Inr (ascii ''recent emails''))"

text \<open>\<^verbatim>\<open>_handle_search_emails\<close>\<close>

definition handle_search_emails_try ::
  "env \<Rightarrow> session \<Rightarrow> pyval \<Rightarrow> world \<Rightarrow> (exn + pyval) \<times> world" where
  "handle_search_emails_try env s parameters =
     bindW (pureW (query_fragments env parameters)) (\<lambda>parts.
     bindW (pureW (py_get parameters (ascii ''is_spam'') VNone)) (\<lambda>is_spam.
     bindW (pureW (join_query (parts @ (if truthy is_spam then [VStr (ascii ''is:spam'')] else []))))
       (\<lambda>query.
     bindW (run_tools env s
              (ascii ''Use GMAIL_FETCH_EMAILS to search and retrieve emails with full content.'')
              (ascii ''Search Gmail for emails matching: '' @ query
               @ ascii ''. Include full details and body content.'')) (\<lambda>result.
     bindW (totalW (refine_response_with_gpt env
              (VStr (format_result env result (ascii ''Search for: '' @ query))))) (\<lambda>refined_result.
     pureW (Inr (success_result (ascii ''Search for: '' @ query) (ascii ''SEARCH'')
                   result refined_result)))))))"

definition handle_search_emails :: "env \<Rightarrow> session \<Rightarrow> pyval \<Rightarrow> world \<Rightarrow> pyval \<times> world" where
  "handle_search_emails env s parameters w =
     catch_handler env (handle_search_emails_try env s parameters w)"

text \<open>\<^verbatim>\<open>_handle_delete_emails\<close>\<close>

definition str_plus :: "ustr \<Rightarrow> pyval \<Rightarrow> exn + pyval" where
  "str_plus s v = (case v of VStr t \<Rightarrow> Inr (VStr (s @ t)) | _ \<Rightarrow> Inl TypeError)"

definition handle_delete_emails_try ::
  "env \<Rightarrow> session \<Rightarrow> pyval \<Rightarrow> world \<Rightarrow> (exn + pyval) \<times> world" where
  "handle_delete_emails_try env s parameters =
     bindW (pureW (py_get parameters (ascii ''email_id'') (VStr []))) (\<lambda>email_id.
     bindW (pureW (py_get parameters (ascii ''query'') (VStr []))) (\<lambda>query0.
     bindW (pureW (py_get parameters (ascii ''is_spam'') VNone)) (\<lambda>is_spam.
     bindW (pureW (if truthy is_spam
                   then (if truthy query0 then str_plus (ascii ''is:spam '') query0
                         else Inr (VStr (ascii ''is:spam'')))
                   else Inr query0)) (\<lambda>query.
     bindW (run_tools env s
              (ascii ''For DELETE operations, use GMAIL_FETCH_EMAILS to find emails, then GMAIL_DELETE_MESSAGE for each one.'')
              (ascii ''Delete emails matching the criteria: '' @ py_str env (py_or query email_id)
               @ ascii ''. First search for matching emails, then delete them using GMAIL_DELETE_MESSAGE.''))
       (\<lambda>result.
     bindW (totalW (refine_response_with_gpt env
              (VStr (format_result env result
                 (ascii ''Delete emails: '' @ py_str env (py_or query email_id)))))) (\<lambda>refined_result.
     pureW (Inr (success_result (ascii ''Delete emails: '' @ py_str env (py_or query email_id))
                   (ascii ''DELETE'') result refined_result))))))))"

definition handle_delete_emails :: "env \<Rightarrow> session \<Rightarrow> pyval \<Rightarrow> world \<Rightarrow> pyval \<times> world" where
  "handle_delete_emails env s parameters w =
     catch_handler env (handle_delete_emails_try env s parameters w)"

text \<open>\<^verbatim>\<open>_handle_move_to_trash\<close>\<close>

definition handle_move_to_trash_try ::
  "env \<Rightarrow> session \<Rightarrow> pyval \<Rightarrow> world \<Rightarrow> (exn + pyval) \<times> world" where
  "handle_move_to_trash_try env s parameters =
     bindW (pureW (bindE (query_fragments env parameters) join_query)) (\<lambda>query.
     bindW (run_tools env s
              (ascii ''Use GMAIL_FETCH_EMAILS to find emails, then GMAIL_MOVE_TO_TRASH for each matching email.'')
              (ascii ''Move emails matching '' @ [39] @ query @ [39]
               @ ascii '' to trash using GMAIL_MOVE_TO_TRASH.'')) (\<lambda>result.
     bindW (totalW (refine_response_with_gpt env
              (VStr (format_result env result (ascii ''Move to trash: '' @ query))))) (\<lambda>refined_result.
     pureW (Inr (success_result (ascii ''Move to trash: '' @ query) (ascii ''MOVE_TO_TRASH'')
                   result refined_result)))))"

definition handle_move_to_trash :: "env \<Rightarrow> session \<Rightarrow> pyval \<Rightarrow> world \<Rightarrow> pyval \<times> world" where
  "handle_move_to_trash env s parameters w =
     catch_handler env (handle_move_to_trash_try env s parameters w)"

text \<open>
  \<^verbatim>\<open>result[0].get("data", {}) if result else {}\<close>, as \<^verbatim>\<open>_handle_get_contacts\<close> and
  \<^verbatim>\<open>_handle_get_profile\<close> read the gateway's answer.
\<close>

definition first_data :: "pyval \<Rightarrow> exn + pyval" where
  "first_data result =
     (if truthy result
      then bindE (py_index0 result) (\<lambda>item. py_get item (ascii ''data'') (VDict []))
      else Inr (VDict []))"

text \<open>\<^verbatim>\<open>_handle_get_contacts\<close>\<close>

definition handle_get_contacts_try ::
  "env \<Rightarrow> session \<Rightarrow> pyval \<Rightarrow> world \<Rightarrow> (exn + pyval) \<times> world" where
  "handle_get_contacts_try env s parameters =
     bindW (run_tools env s
              (ascii ''Use GMAIL_GET_CONTACTS to retrieve contacts with emailAddresses and names.'')
              (ascii ''Fetch the list of contacts using GMAIL_GET_CONTACTS. Include names and email addresses.''))
       (\<lambda>result.
     bindW (pureW (first_data result)) (\<lambda>data.
     bindW (totalW (refine_response_with_gpt env (VStr (format_contacts env data)))) (\<lambda>refined_result.
     pureW (Inr (success_result (ascii ''List contacts'') (ascii ''GET_CONTACTS'')
                   result refined_result)))))"

definition handle_get_contacts :: "env \<Rightarrow> session \<Rightarrow> pyval \<Rightarrow> world \<Rightarrow> pyval \<times> world" where
  "handle_get_contacts env s parameters w =
     catch_handler env (handle_get_contacts_try env s parameters w)"

text \<open>\<^verbatim>\<open>_handle_mark_as_read\<close> and \<^verbatim>\<open>_handle_mark_as_unread\<close>\<close>

definition handle_mark_as_read_try ::
  "env \<Rightarrow> session \<Rightarrow> pyval \<Rightarrow> world \<Rightarrow> (exn + pyval) \<times> world" where
  "handle_mark_as_read_try env s parameters =
     bindW (pureW (py_get parameters (ascii ''email_id'') (VStr []))) (\<lambda>email_id.
     bindW (pureW (py_get parameters (ascii ''query'') (VStr []))) (\<lambda>query.
     bindW (run_tools env s
              (ascii ''Use GMAIL_FETCH_EMAILS to find emails, then GMAIL_MARK_AS_READ for each one.'')
              (ascii ''Mark emails matching '' @ [39] @ py_str env (py_or query email_id) @ [39]
               @ ascii '' as read using GMAIL_MARK_AS_READ.'')) (\<lambda>result.
     bindW (totalW (refine_response_with_gpt env
              (VStr (format_result env result
                 (ascii ''Mark as read: '' @ py_str env (py_or query email_id)))))) (\<lambda>refined_result.
     pureW (Inr (success_result (ascii ''Mark as read: '' @ py_str env (py_or query email_id))
                   (ascii ''MARK_READ'') result refined_result))))))"

definition handle_mark_as_read :: "env \<Rightarrow> session \<Rightarrow> pyval \<Rightarrow> world \<Rightarrow> pyval \<times> world" where
  "handle_mark_as_read env s parameters w =
     catch_handler env (handle_mark_as_read_try env s parameters w)"

definition handle_mark_as_unread_try ::
  "env \<Rightarrow> session \<Rightarrow> pyval \<Rightarrow> world \<Rightarrow> (exn + pyval) \<times> world" where
  "handle_mark_as_unread_try env s parameters =
     bindW (pureW (py_get parameters (ascii ''email_id'') (VStr []))) (\<lambda>email_id.
     bindW (pureW (py_get parameters (ascii ''query'') (VStr []))) (\<lambda>query.
     bindW (run_tools env s
              (ascii ''Use GMAIL_FETCH_EMAILS to find emails, then GMAIL_MARK_AS_UNREAD for each one.'')
              (ascii ''Mark emails matching '' @ [39] @ py_str env (py_or query email_id) @ [39]
               @ ascii '' as unread using GMAIL_MARK_AS_UNREAD.'')) (\<lambda>result.
     bindW (totalW (refine_response_with_gpt env
              (VStr (format_result env result
                 (ascii ''Mark as unread: '' @ py_str env (py_or query email_id)))))) (\<lambda>refined_result.
     pureW (Inr (success_result (ascii ''Mark as unread: '' @ py_str env (py_or query email_id))
                   (ascii ''MARK_UNREAD'') result refined_result))))))"

definition handle_mark_as_unread :: "env \<Rightarrow> session \<Rightarrow> pyval \<Rightarrow> world \<Rightarrow> pyval \<times> world" where
  "handle_mark_as_unread env s parameters w =
     catch_handler env (handle_mark_as_unread_try env s parameters w)"

text \<open>\<^verbatim>\<open>_handle_read_email\<close>\<close>

definition first_messages :: "pyval \<Rightarrow> exn + pyval" where
  "first_messages result =
     (if truthy result
      then bindE (py_index0 result) (\<lambda>item.
           bindE (py_get item (ascii ''data'') (VDict [])) (\<lambda>data.
           py_get data (ascii ''messages'') (VList [])))
      else Inr (VList []))"

definition handle_read_email_try ::
  "env \<Rightarrow> session \<Rightarrow> pyval \<Rightarrow> world \<Rightarrow> (exn + pyval) \<times> world" where
  "handle_read_email_try env s parameters =
     bindW (pureW (bindE (query_fragments env parameters) join_query)) (\<lambda>query.
     bindW (run_tools env s
              (ascii ''Use GMAIL_FETCH_EMAILS to retrieve emails with full body content.'')
              (ascii ''Fetch emails matching '' @ [39] @ query @ [39]
               @ ascii '' using GMAIL_FETCH_EMAILS and include full body content.'')) (\<lambda>result.
     bindW (pureW (bindE (first_messages result) (format_emails_with_full_content env)))
       (\<lambda>formatted_result.
     bindW (totalW (refine_response_with_gpt env (VStr formatted_result))) (\<lambda>refined_result.
     pureW (Inr (success_result (ascii ''Read emails: '' @ query) (ascii ''READ'')
                   result refined_result))))))"

definition handle_read_email :: "env \<Rightarrow> session \<Rightarrow> pyval \<Rightarrow> world \<Rightarrow> pyval \<times> world" where
  "handle_read_email env s parameters w =
     catch_handler env (handle_read_email_try env s parameters w)"

text \<open>\<^verbatim>\<open>_handle_create_label\<close>\<close>

definition handle_create_label_try ::
  "env \<Rightarrow> session \<Rightarrow> pyval \<Rightarrow> world \<Rightarrow> (exn + pyval) \<times> world" where
  "handle_create_label_try env s parameters =
     bindW (pureW (py_get parameters (ascii ''label_name'') (VStr []))) (\<lambda>label_name.
       if \<not> truthy label_name
       then pureW (Inr (VDict [(ascii ''error'', VStr (ascii ''No label name specified''))]))
       else
         bindW (run_tools env s (ascii ''Use GMAIL_CREATE_LABEL to create a new label.'')
                  (ascii ''Create a Gmail label named '' @ [39] @ py_str env label_name @ [39]
                   @ ascii '' using GMAIL_CREATE_LABEL.'')) (\<lambda>result.
         bindW (totalW (refine_response_with_gpt env
                  (VStr (format_result env result
                     (ascii ''Create label: '' @ py_str env label_name))))) (\<lambda>refined_result.
         pureW (Inr (success_result (ascii ''Create label: '' @ py_str env label_name)
                       (ascii ''CREATE_LABEL'') result refined_result)))))"

definition handle_create_label :: "env \<Rightarrow> session \<Rightarrow> pyval \<Rightarrow> world \<Rightarrow> pyval \<times> world" where
  "handle_create_label env s parameters w =
     catch_handler env (handle_create_label_try env s parameters w)"

text \<open>\<^verbatim>\<open>_handle_get_profile\<close>\<close>

definition handle_get_profile_try ::
  "env \<Rightarrow> session \<Rightarrow> pyval \<Rightarrow> world \<Rightarrow> (exn + pyval) \<times> world" where
  "handle_get_profile_try env s parameters =
     bindW (run_tools env s
              (ascii ''Use GMAIL_GET_PROFILE to retrieve profile details like email address and message counts.'')
              (ascii ''Fetch Gmail profile information using GMAIL_GET_PROFILE.'')) (\<lambda>result.
     bindW (pureW (first_data result)) (\<lambda>data.
     bindW (totalW (refine_response_with_gpt env (VStr (format_profile env data)))) (\<lambda>refined_result.
     pureW (Inr (success_result (ascii ''Get profile'') (ascii ''GET_PROFILE'')
                   result refined_result)))))"

definition handle_get_profile :: "env \<Rightarrow> session \<Rightarrow> pyval \<Rightarrow> world \<Rightarrow> pyval \<times> world" where
  "handle_get_profile env s parameters w =
     catch_handler env (handle_get_profile_try env s parameters w)"

section \<open>Authentication and dispatch\<close>

text \<open>\<^verbatim>\<open>initiate_auth\<close>: the pending request is stored only when the call returns.\<close>

definition initiate_auth :: "env \<Rightarrow> session \<Rightarrow> world \<Rightarrow> ustr \<times> session \<times> world" where
  "initiate_auth env s w =
     (case connected_accounts_initiate env w (user_email s) (auth_config_id s) of
        Inr request \<Rightarrow>
          (ascii ''Please visit this URL to authenticate Gmail: '' @ py_str env (redirect_url request)
           @ [10] @ ascii ''After completing, send 'Auth complete' or your next query.'',
           s\<lparr>connection_request := Some request\<rparr>,
           w @ [Initiate (user_email s) (auth_config_id s)])
      | Inl e \<Rightarrow>
          (ascii ''Error initiating auth: '' @ str_exn env e,
           s,
           w @ [Initiate (user_email s) (auth_config_id s)]))"

text \<open>\<^verbatim>\<open>complete_auth\<close>: one wait of five seconds, then the tool handles are fetched.\<close>

definition complete_auth :: "env \<Rightarrow> session \<Rightarrow> world \<Rightarrow> bool \<times> session \<times> world" where
  "complete_auth env s w =
     (case connection_request s of
        None \<Rightarrow> (False, s, w)
      | Some request \<Rightarrow>
          (case wait_for_connection env w request 5 of
             Inl e \<Rightarrow> (False, s, w @ [WaitForConnection request 5])
           | Inr account \<Rightarrow>
               (case tools_get env (w @ [WaitForConnection request 5]) (user_email s) of
                  Inl e \<Rightarrow>
                    (False, s\<lparr>connected_account := account\<rparr>,
                     w @ [WaitForConnection request 5, ToolsGet (user_email s)])
                | Inr handles \<Rightarrow>
                    (True, s\<lparr>connected_account := account, tools := handles\<rparr>,
                     w @ [WaitForConnection request 5, ToolsGet (user_email s)]))))"

text \<open>
  \<^verbatim>\<open>process_query\<close>. The prefix pattern is \<^verbatim>\<open>^@composio\s+agent\s+\<close>, matched ignoring case.
  First the branch taken when no handler matches the intent.
\<close>

definition PREFIX_RE :: ustr where
  "PREFIX_RE = ascii ''^@composio'' @ [92] @ ascii ''s+agent'' @ [92] @ ascii ''s+''"

definition generic_system_prompt :: "env \<Rightarrow> session \<Rightarrow> ustr" where
  "generic_system_prompt env s =
     ascii ''You are a Gmail assistant for '' @ py_str env (user_email s)
     @ ascii '' with access to all Gmail tools: '' @ str_join (ascii '', '') gmail_tools
     @ ascii ''.\<newline>'' @ replicate 16 32
     @ ascii ''Use the most appropriate tool for the user's request. Provide clear, actionable responses.''"

definition generic_try ::
  "env \<Rightarrow> session \<Rightarrow> ustr \<Rightarrow> pyval \<Rightarrow> pyval \<Rightarrow> world \<Rightarrow> (exn + pyval) \<times> world" where
  "generic_try env s cleaned_query intent parameters =
     bindW (create_completion env (tool_request s (generic_system_prompt env s) cleaned_query))
       (\<lambda>response.
     bindW (handle_tool_calls env response (user_email s)) (\<lambda>raw_result.
     bindW (pureW (first_content response)) (\<lambda>content.
     pureW (Inr (VDict
       [(ascii ''success'', VBool True),
        (ascii ''query'', VStr cleaned_query),
        (ascii ''intent'', intent),
        (ascii ''parameters'', parameters),
        (ascii ''result'', raw_result),
        (ascii ''formatted_result'', VStr (format_result env raw_result cleaned_query)),
        (ascii ''model_response'',
           py_or content (VStr (ascii ''Action completed successfully'')))])))))"

definition dispatch ::
  "env \<Rightarrow> session \<Rightarrow> ustr \<Rightarrow> pyval \<Rightarrow> pyval \<Rightarrow> world \<Rightarrow> (exn + pyval) \<times> world" where
  "dispatch env s cleaned_query intent parameters =
     (if intent = VStr (ascii ''SEND'') then totalW (handle_send_email env s parameters)
      else if intent = VStr (ascii ''SEARCH'') then totalW (handle_search_emails env s parameters)
      else if intent = VStr (ascii ''DELETE'') then totalW (handle_delete_emails env s parameters)
      else if intent = VStr (ascii ''MOVE_TO_TRASH'') then totalW (handle_move_to_trash env s parameters)
      else if intent = VStr (ascii ''GET_CONTACTS'') then totalW (handle_get_contacts env s parameters)
      else if intent = VStr (ascii ''MARK_READ'') then totalW (handle_mark_as_read env s parameters)
      else if intent = VStr (ascii ''MARK_UNREAD'') then totalW (handle_mark_as_unread env s parameters)
      else if intent = VStr (ascii ''READ'') then totalW (handle_read_email env s parameters)
      else if intent = VStr (ascii ''CREATE_LABEL'') then totalW (handle_create_label env s parameters)
      else if intent = VStr (ascii ''GET_PROFILE'') then totalW (handle_get_profile env s parameters)
      else generic_try env s cleaned_query intent parameters)"

text \<open>\<^verbatim>\<open>result[key] = value\<close>\<close>

fun dict_set :: "ustr \<Rightarrow> pyval \<Rightarrow> (ustr \<times> pyval) list \<Rightarrow> (ustr \<times> pyval) list" where
  "dict_set k v [] = [(k, v)]"
| "dict_set k v ((k', v') # d) = (if k = k' then (k, v) # d else (k', v') # dict_set k v d)"

definition py_setitem :: "pyval \<Rightarrow> ustr \<Rightarrow> pyval \<Rightarrow> exn + pyval" where
  "py_setitem obj k v = (case obj of VDict d \<Rightarrow> Inr (VDict (dict_set k v d)) | _ \<Rightarrow> Inl TypeError)"

text \<open>
  The \<^verbatim>\<open>try\<close> block of \<^verbatim>\<open>process_query\<close>: dispatch, refine the formatted result once more,
  store it, and print its first hundred characters (which needs a value that can be
  sliced).
\<close>

definition process_query_try ::
  "env \<Rightarrow> session \<Rightarrow> ustr \<Rightarrow> pyval \<Rightarrow> pyval \<Rightarrow> world \<Rightarrow> (exn + pyval) \<times> world" where
  "process_query_try env s cleaned_query intent parameters =
     bindW (dispatch env s cleaned_query intent parameters) (\<lambda>result.
     bindW (pureW (py_get result (ascii ''formatted_result'')
                     (VStr (ascii ''Action completed successfully'')))) (\<lambda>formatted.
     bindW (totalW (refine_response_with_gpt env formatted)) (\<lambda>refined_result.
     bindW (pureW (py_setitem result (ascii ''formatted_result'') refined_result)) (\<lambda>result'.
     bindW (pureW (py_slice_to 100 refined_result)) (\<lambda>shown.
     pureW (Inr result'))))))"

definition NOT_AUTHENTICATED :: pyval where
  "NOT_AUTHENTICATED =
     VDict [(ascii ''success'', VBool False),
            (ascii ''error'',
             VStr (ascii ''Gmail not authenticated. Send 'Authenticate Gmail' to start auth.''))]"

definition process_query ::
  "env \<Rightarrow> session \<Rightarrow> ustr \<Rightarrow> world \<Rightarrow> (exn + pyval) \<times> session \<times> world" where
  "process_query env s user_query w =
     (let cleaned_query = str_strip (re_sub env PREFIX_RE [] user_query True) in
      case analyze_user_intent env cleaned_query w of
        (intent_analysis, w1) \<Rightarrow>
          (case bindE (py_get intent_analysis (ascii ''intent'') (VStr (ascii ''UNKNOWN''))) (\<lambda>intent.
                bindE (py_get intent_analysis (ascii ''parameters'') (VDict [])) (\<lambda>parameters.
                bindE (py_get intent_analysis (ascii ''confidence'') (VFloat 0)) (\<lambda>confidence.
                  Inr (intent, parameters)))) of
             Inl e \<Rightarrow> (Inl e, s, w1)
           | Inr (intent, parameters) \<Rightarrow>
               if intent = VStr (ascii ''AUTH'') then
                 (case initiate_auth env s w1 of
                    (auth_url, s', w2) \<Rightarrow>
                      (Inr (VDict [(ascii ''success'', VBool True),
                                   (ascii ''intent'', VStr (ascii ''AUTH'')),
                                   (ascii ''formatted_result'', VStr auth_url)]),
                       s', w2))
               else if \<not> is_authenticated s then (Inr NOT_AUTHENTICATED, s, w1)
               else
                 (case process_query_try env s cleaned_query intent parameters w1 of
                    (Inr result, w2) \<Rightarrow> (Inr result, s, w2)
                  | (Inl e, w2) \<Rightarrow>
                      (Inr (VDict [(ascii ''success'', VBool False),
                                   (ascii ''error'',
                                    VStr (10060 # ascii '' Error processing query: '' @ str_exn env e)),
                                   (ascii ''query'', VStr cleaned_query)]),
                       s, w2))))"

section \<open>Transport adapter\<close>

text \<open>
  \<^verbatim>\<open>handle_message\<close>: the acknowledgement, the text of the turn, one poll of a pending
  authentication or else the dispatcher, and the reply. The last \<^verbatim>\<open>print\<close> slices the reply
  before it is sent.
\<close>

datatype content_item = TextContent ustr | OtherContent

definition message_text :: "content_item list \<Rightarrow> ustr" where
  "message_text content =
     concat (map (\<lambda>item. case item of TextContent t \<Rightarrow> t | OtherContent \<Rightarrow> []) content)"

definition reply_of_result :: "env \<Rightarrow> pyval \<Rightarrow> exn + pyval" where
  "reply_of_result env result =
     bindE (py_get result (ascii ''success'') VNone) (\<lambda>success.
       if truthy success
       then py_get result (ascii ''formatted_result'') (VStr (ascii ''Action completed successfully''))
       else bindE (py_get result (ascii ''error'') (VStr (ascii ''Unknown error'')))
              (\<lambda>err. Inr (VStr (10060 # ascii '' Error: '' @ py_str env err))))"

definition AUTH_COMPLETED :: ustr where
  "AUTH_COMPLETED = 9989 # ascii '' Gmail authentication completed successfully! Try commands like 'Create a label called fetch.ai' or 'Get my profile'.''"

definition AUTH_PENDING :: ustr where
  "AUTH_PENDING = 9203 # ascii '' Authentication not yet completed. Please complete the auth flow in your browser and try again.''"

definition send_reply :: "pyval \<Rightarrow> session \<Rightarrow> world \<Rightarrow> (exn + pyval) \<times> session \<times> world" where
  "send_reply response s w =
     (case py_slice_to 100 response of
        Inl e \<Rightarrow> (Inl e, s, w)
      | Inr shown \<Rightarrow> (Inr response, s, w @ [SendChatMessage response]))"

definition handle_message ::
  "env \<Rightarrow> session \<Rightarrow> content_item list \<Rightarrow> world \<Rightarrow> (exn + pyval) \<times> session \<times> world" where
  "handle_message env s content w =
     (let w0 = w @ [SendAcknowledgement]; text = message_text content in
      if connection_request s \<noteq> None \<and> \<not> is_authenticated s then
        (case complete_auth env s w0 of
           (done, s1, w1) \<Rightarrow>
             send_reply (VStr (if done then AUTH_COMPLETED else AUTH_PENDING)) s1 w1)
      else
        (case process_query env s text w0 of
           (outcome, s1, w1) \<Rightarrow>
             (case bindE outcome (reply_of_result env) of
                Inr response \<Rightarrow> send_reply response s1 w1
              | Inl e \<Rightarrow>
                  send_reply
                    (VStr (10060 # ascii '' S'' @ ascii ''orry, couldn'' @ [8217] @ ascii ''t process that: ''
                           @ str_exn env e)) s1 w1)))"

section \<open>Process start\<close>

text \<open>
  \<^verbatim>\<open>GmailAgent.__init__\<close> and the call of the class with keyword arguments: both
  parameters are required and have no default, so a call that leaves one out raises
  \<^verbatim>\<open>TypeError\<close> before the body runs, as does a keyword that is not a parameter.
\<close>

definition GmailAgent_init :: "pyval \<Rightarrow> pyval \<Rightarrow> session" where
  "GmailAgent_init email config_id =
     \<lparr>user_email = email, auth_config_id = config_id, tools = VNone,
      connected_account = VNone, connection_request = None\<rparr>"

definition GmailAgent :: "(string \<times> pyval) list \<Rightarrow> exn + session" where
  "GmailAgent kwargs =
     (if list_all (\<lambda>k. k = ''user_email'' \<or> k = ''auth_config_id'') (map fst kwargs)
      then
        (case (map_of kwargs ''user_email'', map_of kwargs ''auth_config_id'') of
           (Some email, Some config_id) \<Rightarrow> Inr (GmailAgent_init email config_id)
         | _ \<Rightarrow> Inl TypeError)
      else Inl TypeError)"

text \<open>
  The module-level statement
  \<^verbatim>\<open>gmail_agent = GmailAgent(auth_config_id=os.getenv("GMAIL_AUTH_CONFIG_ID"))\<close>,
  for the process environment \<open>getenv\<close>.
\<close>

definition gmail_agent :: "(ustr \<Rightarrow> pyval) \<Rightarrow> exn + session" where
  "gmail_agent getenv =
     GmailAgent [(''auth_config_id'', getenv (ascii ''GMAIL_AUTH_CONFIG_ID''))]"

section \<open>The decoders of the standard library\<close>

text \<open>
  \<^verbatim>\<open>base64.b64decode(s)\<close> as the source calls it (no validation): a string with a
  non-ASCII character is refused; otherwise characters outside the alphabet are skipped,
  every four data characters give three bytes, a pad character ends the input once it
  completes a group of four, and leftover data characters are an error. The arguments of
  \<open>a2b_base64\<close> are the position in the group of four, the bits left over, the pad
  characters seen in the group and the bytes so far.
\<close>

definition b64_value :: "nat \<Rightarrow> nat option" where
  "b64_value c =
     (if 65 \<le> c \<and> c \<le> 90 then Some (c - 65)
      else if 97 \<le> c \<and> c \<le> 122 then Some (c - 71)
      else if 48 \<le> c \<and> c \<le> 57 then Some (c + 4)
      else if c = 43 then Some 62
      else if c = 47 then Some 63
      else None)"

fun a2b_base64 :: "nat list \<Rightarrow> nat \<Rightarrow> nat \<Rightarrow> nat \<Rightarrow> nat list \<Rightarrow> exn + nat list" where
  "a2b_base64 [] quad left pads out =
     (if quad = 0 then Inr out
      else if quad = 1 then
        Inl (ServiceError
          (ascii ''Invalid base64-encoded string: number of data characters (''
           @ str_of_nat (length out div 3 * 4 + 1)
           @ ascii '') cannot be 1 more than a multiple of 4''))
      else Inl (ServiceError (ascii ''Incorrect padding'')))"
| "a2b_base64 (c # cs) quad left pads out =
     (if c = 61 then
        (if 2 \<le> quad then
           (if 4 \<le> quad + Suc pads then Inr out else a2b_base64 cs quad left (Suc pads) out)
         else a2b_base64 cs quad left pads out)
      else
        (case b64_value c of
           None \<Rightarrow> a2b_base64 cs quad left pads out
         | Some v \<Rightarrow>
             if quad = 0 then a2b_base64 cs 1 v 0 out
             else if quad = 1 then a2b_base64 cs 2 (v mod 16) 0 (out @ [left * 4 + v div 16])
             else if quad = 2 then a2b_base64 cs 3 (v mod 4) 0 (out @ [left * 16 + v div 4])
             else a2b_base64 cs 0 0 0 (out @ [left * 64 + v])))"

definition std_b64decode :: "ustr \<Rightarrow> exn + nat list" where
  "std_b64decode s =
     (if list_all (\<lambda>c. c < 128) s then a2b_base64 s 0 0 0 []
      else Inl (ServiceError (ascii ''string argument should contain only ASCII characters'')))"

text \<open>
  \<^verbatim>\<open>bytes.decode('utf-8', errors='ignore')\<close>: a well-formed sequence gives its code point;
  at an ill-formed one the bytes read so far are dropped and decoding resumes at the
  offending byte.
\<close>

definition is_cont :: "nat \<Rightarrow> bool" where
  "is_cont b \<longleftrightarrow> 128 \<le> b \<and> b \<le> 191"

fun std_utf8_ignore :: "nat list \<Rightarrow> ustr" where
  "std_utf8_ignore [] = []"
| "std_utf8_ignore (b # bs) =
     (if b < 128 then b # std_utf8_ignore bs
      else if 194 \<le> b \<and> b \<le> 223 then
        (case bs of
           [] \<Rightarrow> []
         | b1 # r1 \<Rightarrow>
             if is_cont b1 then (b mod 32 * 64 + b1 mod 64) # std_utf8_ignore r1
             else std_utf8_ignore bs)
      else if 224 \<le> b \<and> b \<le> 239 then
        (case bs of
           [] \<Rightarrow> []
         | b1 # r1 \<Rightarrow>
             if (if b = 224 then 160 else 128) \<le> b1 \<and> b1 \<le> (if b = 237 then 159 else 191) then
               (case r1 of
                  [] \<Rightarrow> []
                | b2 # r2 \<Rightarrow>
                    if is_cont b2
                    then (b mod 16 * 4096 + b1 mod 64 * 64 + b2 mod 64) # std_utf8_ignore r2
                    else std_utf8_ignore r1)
             else std_utf8_ignore bs)
      else if 240 \<le> b \<and> b \<le> 244 then
        (case bs of
           [] \<Rightarrow> []
         | b1 # r1 \<Rightarrow>
             if (if b = 240 then 144 else 128) \<le> b1 \<and> b1 \<le> (if b = 244 then 143 else 191) then
               (case r1 of
                  [] \<Rightarrow> []
                | b2 # r2 \<Rightarrow>
                    if is_cont b2 then
                      (case r2 of
                         [] \<Rightarrow> []
                       | b3 # r3 \<Rightarrow>
                           if is_cont b3
                           then (b mod 8 * 262144 + b1 mod 64 * 4096 + b2 mod 64 * 64 + b3 mod 64)
                                # std_utf8_ignore r3
                           else std_utf8_ignore r2)
                    else std_utf8_ignore r1)
             else std_utf8_ignore bs)
      else std_utf8_ignore bs)"

section \<open>Concrete environments\<close>

text \<open>
  Small concrete services, used to run the model on explicit inputs: a completion service
  that is down, one that always answers a fixed text, an authentication flow that fails
  or succeeds. The base64 and UTF-8 decoders are those of the standard library. The
  regular-expression engine answers as it does when nothing matches, and timestamps do
  not parse: the inputs used below have no prefix, tag, blank line or run of spaces and
  carry no timestamp.
\<close>

definition demo_env ::
  "(world \<Rightarrow> request \<Rightarrow> exn + response) \<Rightarrow> (ustr \<Rightarrow> exn + pyval) \<Rightarrow>
   (world \<Rightarrow> response \<Rightarrow> pyval \<Rightarrow> exn + pyval) \<Rightarrow>
   (world \<Rightarrow> pyval \<Rightarrow> pyval \<Rightarrow> exn + conn_req) \<Rightarrow> env" where
  "demo_env cc js gw ini =
     \<lparr>chat_completions_create = cc,
      provider_handle_tool_calls = gw,
      connected_accounts_initiate = ini,
      wait_for_connection = (\<lambda>w c t. Inl TimeoutError),
      tools_get = (\<lambda>w u. Inr (VList [])),
      json_loads_str = js,
      b64decode = std_b64decode,
      decode_utf8_ignore = std_utf8_ignore,
      re_sub = (\<lambda>p r t f. t),
      fromisoformat = (\<lambda>s. Inl (ServiceError (ascii ''Invalid isoformat string''))),
      strftime = (\<lambda>d f. Inl TypeError),
      py_repr = (\<lambda>v. ascii ''?''),
      str_exn = (\<lambda>e. case e of ServiceError m \<Rightarrow> m | KeyError k \<Rightarrow> k | _ \<Rightarrow> ascii ''error'')\<rparr>"

definition cc_down :: "world \<Rightarrow> request \<Rightarrow> exn + response" where
  "cc_down w req = Inl (ServiceError (ascii ''connection refused''))"

definition cc_text :: "ustr \<Rightarrow> world \<Rightarrow> request \<Rightarrow> exn + response" where
  "cc_text s w req = Inr \<lparr>choices = [\<lparr>msg_content = VStr s, msg_tool_calls = VNone\<rparr>]\<rparr>"

definition js_fail :: "ustr \<Rightarrow> exn + pyval" where
  "js_fail s = Inl (ServiceError (ascii ''Expecting value''))"

definition gw_fail :: "world \<Rightarrow> response \<Rightarrow> pyval \<Rightarrow> exn + pyval" where
  "gw_fail w r u = Inl (ServiceError (ascii ''gateway unreachable''))"

definition ini_fail :: "world \<Rightarrow> pyval \<Rightarrow> pyval \<Rightarrow> exn + conn_req" where
  "ini_fail w u a = Inl (ServiceError (ascii ''invalid auth config''))"

definition ini_ok :: "world \<Rightarrow> pyval \<Rightarrow> pyval \<Rightarrow> exn + conn_req" where
  "ini_ok w u a = Inr \<lparr>redirect_url = VStr (ascii ''https://auth.example/r''), conn_id = 1\<rparr>"




text \<open>
  A parser that answers a fixed value, and two sessions for the account
  \<^verbatim>\<open>me@example.com\<close>: the one a constructor call with both arguments creates, and one
  whose authentication has completed.
\<close>

definition js_const :: "pyval \<Rightarrow> ustr \<Rightarrow> exn + pyval" where
  "js_const v s = Inr v"

definition demo_session :: session where
  "demo_session = GmailAgent_init (VStr (ascii ''me@example.com'')) (VStr (ascii ''ac_1''))"

definition demo_auth_session :: session where
  "demo_auth_session = demo_session\<lparr>tools := VList [], connected_account := VObj 7\<rparr>"

definition demo_intent :: "string \<Rightarrow> pyval" where
  "demo_intent name =
     VDict [(ascii ''intent'', VStr (ascii name)),
            (ascii ''parameters'', VDict []),
            (ascii ''confidence'', VFloat 0.9)]"

text \<open>
  A message whose preview is 201 times the letter x and whose body is the base64 text
  \<^verbatim>\<open>eHh4\<close> (the encoding of \<^verbatim>\<open>xxx\<close>) 334 times, that is 1002 times the letter x; and a
  draft holding it.
\<close>

definition demo_long_message :: "(ustr \<times> pyval) list" where
  "demo_long_message =
     [(ascii ''preview'', VDict [(ascii ''body'', VStr (replicate 201 120))]),
      (ascii ''payload'',
       VDict [(ascii ''body'',
               VDict [(ascii ''data'', VStr (concat (replicate 334 (ascii ''eHh4''))))])])]"

definition demo_long_draft :: "(ustr \<times> pyval) list" where
  "demo_long_draft = [(ascii ''message'', VDict demo_long_message)]"



section \<open>Basic facts about the model\<close>

lemma ascii_inj [simp]: "ascii s = ascii t \<longleftrightarrow> s = t"
  unfolding ascii_def by (rule inj_map_eq_map) (simp add: inj_on_def)

lemma bindE_simps [simp]:
  "bindE (Inl e) f = Inl e"
  "bindE (Inr x) f = f x"
  by (simp_all add: bindE_def)

lemma collect_append:
  "collect f (xs @ ys) =
     bindE (collect f xs) (\<lambda>a. bindE (collect f ys) (\<lambda>b. Inr (a @ b)))"
proof (induction xs)
  case Nil
  show ?case by (cases "collect f ys") simp_all
next
  case (Cons x xs)
  show ?case
  proof (cases "f x")
    case (Inl e)
    then show ?thesis by simp
  next
    case (Inr ls)
    show ?thesis
    proof (cases "collect f xs")
      case (Inl e)
      with Inr Cons show ?thesis by simp
    next
      case r: (Inr a)
      show ?thesis
        by (cases "collect f ys") (simp_all add: Inr r Cons)
    qed
  qed
qed

lemma str_replace_char_single:
  "str_replace_char c [d] s = map (\<lambda>x. if x = c then d else x) s"
  by (induction s) (simp_all add: str_replace_char_def)

lemma pad4_eq: "pad4 s = s @ replicate ((4 - length s mod 4) mod 4) 61"
proof (induction s rule: pad4.induct)
  case (1 s)
  show ?case
  proof (cases "length s mod 4 = 0")
    case True
    then show ?thesis by (subst pad4.simps) simp
  next
    case False
    moreover have "length s mod 4 < 4" by simp
    ultimately have r: "length s mod 4 = 1 \<or> length s mod 4 = 2 \<or> length s mod 4 = 3"
      by linarith
    then have k: "Suc ((4 - Suc (length s) mod 4) mod 4) = (4 - length s mod 4) mod 4"
      by (auto simp add: mod_Suc)
    have "pad4 s = pad4 (s @ [61])"
      using False by (subst pad4.simps) simp
    also have "\<dots> = (s @ [61]) @ replicate ((4 - Suc (length s) mod 4) mod 4) 61"
      using 1 False by simp
    also have "\<dots> = s @ replicate (Suc ((4 - Suc (length s) mod 4) mod 4)) 61"
      by simp
    finally show ?thesis using k by simp
  qed
qed

lemma pad_arith: "(n + (4 - n mod 4) mod 4) mod 4 = (0::nat)"
proof -
  define r where "r = n mod 4"
  have "r < 4" by (simp add: r_def)
  then have r: "r = 0 \<or> r = 1 \<or> r = 2 \<or> r = 3" by linarith
  have "(n + (4 - r) mod 4) mod 4 = (r + (4 - r) mod 4) mod 4"
    unfolding r_def by (rule mod_add_left_eq [symmetric])
  also have "\<dots> = 0" using r by auto
  finally show ?thesis by (simp add: r_def)
qed

lemma pad4_length: "length (pad4 s) mod 4 = 0"
  by (simp add: pad4_eq pad_arith)

lemma b64url_prepare_eq:
  "b64url_prepare s =
     map (\<lambda>c. if c = 45 then 43 else if c = 95 then 47 else c) s
     @ replicate ((4 - length s mod 4) mod 4) 61"
  by (simp add: b64url_prepare_def str_replace_char_single pad4_eq comp_def cong: if_cong)

lemma b64url_prepare_length: "length (b64url_prepare s) mod 4 = 0"
  by (simp add: b64url_prepare_def pad4_length)

section \<open>Response refiner\<close>

text \<open>
  Claim C8. For every already-formatted text, if the completion call of the response
  refiner fails, the refiner returns its input unchanged: nothing is raised and nothing
  is altered. The one completion request it attempted is the only call logged.
\<close>

theorem refine_fallback_lossless:
  "chat_completions_create env w (refine_request raw_response) = Inl e \<Longrightarrow>
   refine_response_with_gpt env raw_response w =
     (raw_response, w @ [Completion (refine_request raw_response)])"
  by (simp add: refine_response_with_gpt_def refine_response_try_def create_completion_def)

theorem refine_fallback_lossless_witness:
  "refine_response_with_gpt (demo_env cc_down js_fail gw_fail ini_fail)
      (VStr (ascii ''3 emails found'')) [] =
     (VStr (ascii ''3 emails found''),
      [Completion (refine_request (VStr (ascii ''3 emails found'')))])"
  using refine_fallback_lossless [of "demo_env cc_down js_fail gw_fail ini_fail" "[]"
      "VStr (ascii ''3 emails found'')" "ServiceError (ascii ''connection refused'')"]
  by (simp add: demo_env_def cc_down_def)

section \<open>Intent classifier\<close>

lemma analyze_user_intent_catches:
  "fst (analyze_user_intent_try env message w) = Inl e \<Longrightarrow>
   fst (analyze_user_intent env message w) = UNKNOWN_INTENT"
  by (cases "analyze_user_intent_try env message w") (simp add: analyze_user_intent_def)

lemma analyze_try_service_error:
  "chat_completions_create env w (intent_request message) = Inl e \<Longrightarrow>
   fst (analyze_user_intent_try env message w) = Inl e"
  by (simp add: analyze_user_intent_try_def create_completion_def)

lemma analyze_try_malformed:
  "chat_completions_create env w (intent_request message) = Inr r \<Longrightarrow>
   bindE (first_content r) (json_loads env) = Inl e \<Longrightarrow>
   fst (analyze_user_intent_try env message w) = Inl e"
  by (simp add: analyze_user_intent_try_def create_completion_def)

text \<open>
  Claim C6. For every input text, when the classification request fails (the completion
  service raises: network or service error), when its answer has no usable content, or
  when the content is not parsable JSON, \<open>analyze_user_intent\<close> returns
  \<open>{intent: UNKNOWN, parameters: {}, confidence: 0.0}\<close>. The function returns a value in
  every case: an exception of the \<^verbatim>\<open>try\<close> body never reaches the caller.
\<close>

theorem analyze_user_intent_degrades:
  "(chat_completions_create env w (intent_request message) = Inl e
      \<or> (\<exists>r. chat_completions_create env w (intent_request message) = Inr r
              \<and> bindE (first_content r) (json_loads env) = Inl e))
   \<Longrightarrow> analyze_user_intent env message w =
        (VDict [(ascii ''intent'', VStr (ascii ''UNKNOWN'')),
                (ascii ''parameters'', VDict []),
                (ascii ''confidence'', VFloat 0)],
         w @ [Completion (intent_request message)])"
  by (auto simp add: analyze_user_intent_def analyze_user_intent_try_def
        create_completion_def UNKNOWN_INTENT_def)

theorem analyze_user_intent_degrades_witness:
  "analyze_user_intent (demo_env cc_down js_fail gw_fail ini_fail) (ascii ''show my emails'') [] =
     (VDict [(ascii ''intent'', VStr (ascii ''UNKNOWN'')),
             (ascii ''parameters'', VDict []),
             (ascii ''confidence'', VFloat 0)],
      [Completion (intent_request (ascii ''show my emails''))])
   \<and> analyze_user_intent (demo_env (cc_text (ascii ''{intent:'')) js_fail gw_fail ini_fail)
        (ascii ''show my emails'') [] =
     (VDict [(ascii ''intent'', VStr (ascii ''UNKNOWN'')),
             (ascii ''parameters'', VDict []),
             (ascii ''confidence'', VFloat 0)],
      [Completion (intent_request (ascii ''show my emails''))])"
proof
  show "analyze_user_intent (demo_env cc_down js_fail gw_fail ini_fail) (ascii ''show my emails'') [] =
     (VDict [(ascii ''intent'', VStr (ascii ''UNKNOWN'')),
             (ascii ''parameters'', VDict []),
             (ascii ''confidence'', VFloat 0)],
      [Completion (intent_request (ascii ''show my emails''))])"
    using analyze_user_intent_degrades [of "demo_env cc_down js_fail gw_fail ini_fail" "[]"
        "ascii ''show my emails''" "ServiceError (ascii ''connection refused'')"]
    by (simp add: demo_env_def cc_down_def)
next
  have "bindE (first_content \<lparr>choices = [\<lparr>msg_content = VStr (ascii ''{intent:''), msg_tool_calls = VNone\<rparr>]\<rparr>)
          (json_loads (demo_env (cc_text (ascii ''{intent:'')) js_fail gw_fail ini_fail))
        = Inl (ServiceError (ascii ''Expecting value''))"
    by (simp add: bindE_def first_content_def json_loads_def demo_env_def js_fail_def)
  then show "analyze_user_intent (demo_env (cc_text (ascii ''{intent:'')) js_fail gw_fail ini_fail)
        (ascii ''show my emails'') [] =
     (VDict [(ascii ''intent'', VStr (ascii ''UNKNOWN'')),
             (ascii ''parameters'', VDict []),
             (ascii ''confidence'', VFloat 0)],
      [Completion (intent_request (ascii ''show my emails''))])"
    using analyze_user_intent_degrades [of "demo_env (cc_text (ascii ''{intent:'')) js_fail gw_fail ini_fail" "[]"
        "ascii ''show my emails''" "ServiceError (ascii ''Expecting value'')"]
    by (simp add: demo_env_def cc_text_def)
qed

section \<open>Decoding message bodies\<close>

lemma decode_body_data_fails:
  "b64decode env (b64url_prepare s) = Inl e \<Longrightarrow> decode_body_data env (VStr s) = Inl e"
  by (simp add: decode_body_data_def)

lemma extract_body_malformed:
  assumes "map_of m (ascii ''payload'') = Some (VDict p)"
    and "map_of p (ascii ''parts'') = None"
    and "map_of p (ascii ''body'') = Some (VDict b)"
    and "map_of b (ascii ''data'') = Some (VStr s)"
    and "s \<noteq> []"
    and "b64decode env (b64url_prepare s) = Inl e"
  shows "extract_email_content_try env (VDict m) = Inl e"
  using assms
  by (simp add: extract_email_content_try_def py_iter_def py_getitem_def decode_body_data_fails)

lemma extract_part_malformed:
  assumes "map_of m (ascii ''payload'') = Some (VDict p)"
    and "map_of p (ascii ''parts'') = Some (VList (VDict part # rest))"
    and "map_of part (ascii ''mimeType'') = Some (VStr (ascii ''text/plain''))
         \<or> map_of part (ascii ''mimeType'') = Some (VStr (ascii ''text/html''))"
    and "map_of part (ascii ''body'') = Some (VDict b)"
    and "map_of b (ascii ''data'') = Some (VStr s)"
    and "s \<noteq> []"
    and "b64decode env (b64url_prepare s) = Inl e"
  shows "extract_email_content_try env (VDict m) = Inl e"
  using assms
  by (auto simp add: extract_email_content_try_def py_iter_def decode_body_data_fails)

lemma extract_body_decoded:
  assumes "map_of m (ascii ''payload'') = Some (VDict p)"
    and "map_of p (ascii ''parts'') = None"
    and "map_of p (ascii ''body'') = Some (VDict b)"
    and "map_of b (ascii ''data'') = Some (VStr s)"
    and "s \<noteq> []"
    and "b64decode env (b64url_prepare s) = Inr bytes"
  shows "extract_email_content_try env (VDict m)
           = Inr (clean_email_text env (decode_utf8_ignore env bytes))"
  using assms
  by (simp add: extract_email_content_try_def py_iter_def py_getitem_def decode_body_data_def)

lemma extract_part_plain_decoded:
  assumes "map_of m (ascii ''payload'') = Some (VDict p)"
    and "map_of p (ascii ''parts'') = Some (VList (VDict part # rest))"
    and "map_of part (ascii ''mimeType'') = Some (VStr (ascii ''text/plain''))"
    and "map_of part (ascii ''body'') = Some (VDict b)"
    and "map_of b (ascii ''data'') = Some (VStr s)"
    and "s \<noteq> []"
    and "b64decode env (b64url_prepare s) = Inr bytes"
  shows "extract_email_content_try env (VDict m)
           = Inr (clean_email_text env (decode_utf8_ignore env bytes))"
  using assms
  by (simp add: extract_email_content_try_def py_iter_def decode_body_data_def)

lemma extract_part_html_decoded:
  assumes "map_of m (ascii ''payload'') = Some (VDict p)"
    and "map_of p (ascii ''parts'') = Some (VList (VDict part # rest))"
    and "map_of part (ascii ''mimeType'') = Some (VStr (ascii ''text/html''))"
    and "map_of part (ascii ''body'') = Some (VDict b)"
    and "map_of b (ascii ''data'') = Some (VStr s)"
    and "s \<noteq> []"
    and "b64decode env (b64url_prepare s) = Inr bytes"
  shows "extract_email_content_try env (VDict m)
           = Inr (clean_email_text env (re_sub env TAG_RE [] (decode_utf8_ignore env bytes) False))"
  using assms
  by (simp add: extract_email_content_try_def py_iter_def decode_body_data_def)

lemma std_decode_examples:
  "std_b64decode (ascii ''aGk='') = Inr [104, 105]"
  "std_b64decode (ascii ''aGk$'') = Inl (ServiceError (ascii ''Incorrect padding''))"
  "std_b64decode (ascii ''<html>=='') = Inr [134, 217, 165]"
  by (simp_all add: std_b64decode_def ascii_def b64_value_def)

lemma std_utf8_examples:
  "std_utf8_ignore [104, 105] = ascii ''hi''"
  "std_utf8_ignore [134, 217, 165] = [1637]"
proof -
  show "std_utf8_ignore [104, 105] = ascii ''hi''"
    by (simp add: ascii_def)
  have "is_cont 165" by (simp add: is_cont_def)
  then show "std_utf8_ignore [134, 217, 165] = [1637]"
    by simp
qed

lemma demo_decoders:
  "b64decode (demo_env cc js gw ini) = std_b64decode"
  "decode_utf8_ignore (demo_env cc js gw ini) = std_utf8_ignore"
  by (simp_all add: demo_env_def)

lemma demo_clean:
  "clean_email_text (demo_env cc js gw ini) [104, 105] = ascii ''hi''"
  "clean_email_text (demo_env cc js gw ini) [1637] = [1637]"
  by (simp_all add: clean_email_text_def demo_env_def str_strip_def py_isspace_def ascii_def)

lemma demo_prepare:
  "b64url_prepare (ascii ''aGk'') = ascii ''aGk=''"
  "b64url_prepare (ascii ''aGk$'') = ascii ''aGk$''"
  "b64url_prepare (ascii ''<html>'') = ascii ''<html>==''"
  "b64url_prepare (ascii ''a-_'') = ascii ''a+/=''"
  by (simp_all add: b64url_prepare_eq ascii_def numeral_2_eq_2)

text \<open>
  Claim C5 says that for every malformed input the extraction returns an empty string.
  The decoder is called without validation, so it skips the characters outside the
  alphabet instead of refusing them: the body \<^verbatim>\<open><html>\<close>, which is not base64url, is
  padded to \<^verbatim>\<open><html>==\<close>, decoded to the bytes 134, 217, 165 and read, the first byte
  being ignored, as the one character U+0665. The extraction returns that text, not the
  empty string.
\<close>

theorem malformed_body_decoded_counterexample:
  "b64url_prepare (ascii ''<html>'') = ascii ''<html>==''
   \<and> std_b64decode (ascii ''<html>=='') = Inr [134, 217, 165]
   \<and> extract_email_content (demo_env cc_down js_fail gw_fail ini_fail)
         (VDict [(ascii ''payload'', VDict [(ascii ''body'', VDict [(ascii ''data'', VStr (ascii ''<html>''))])])])
       = [1637]
   \<and> extract_email_content (demo_env cc_down js_fail gw_fail ini_fail)
         (VDict [(ascii ''payload'', VDict [(ascii ''body'', VDict [(ascii ''data'', VStr (ascii ''<html>''))])])])
       \<noteq> []"
proof -
  let ?E = "demo_env cc_down js_fail gw_fail ini_fail"
  have n: "ascii ''<html>'' \<noteq> []"
    by (simp add: ascii_def)
  have d: "b64decode ?E (b64url_prepare (ascii ''<html>'')) = Inr [134, 217, 165]"
    by (simp add: demo_prepare std_decode_examples demo_decoders)
  have u: "decode_utf8_ignore ?E [134, 217, 165] = [1637]"
    by (simp add: demo_decoders is_cont_def)
  have "extract_email_content_try ?E
         (VDict [(ascii ''payload'', VDict [(ascii ''body'', VDict [(ascii ''data'', VStr (ascii ''<html>''))])])])
       = Inr (clean_email_text ?E (decode_utf8_ignore ?E [134, 217, 165]))"
    using n d
      extract_body_decoded [where m = "[(ascii ''payload'', VDict [(ascii ''body'', VDict [(ascii ''data'', VStr (ascii ''<html>''))])])]"
        and p = "[(ascii ''body'', VDict [(ascii ''data'', VStr (ascii ''<html>''))])]"
        and b = "[(ascii ''data'', VStr (ascii ''<html>''))]" and s = "ascii ''<html>''"
        and env = ?E and bytes = "[134, 217, 165]"]
    by simp
  then have r: "extract_email_content ?E
         (VDict [(ascii ''payload'', VDict [(ascii ''body'', VDict [(ascii ''data'', VStr (ascii ''<html>''))])])])
       = [1637]"
    by (simp add: extract_email_content_def u demo_clean)
  show ?thesis
    by (simp add: r demo_prepare std_decode_examples)
qed

text \<open>
  Claim C5, amended. For every input string \<open>s\<close> of the base64url step of
  \<^verbatim>\<open>_extract_email_content\<close>: every \<^verbatim>\<open>-\<close> (45) becomes \<^verbatim>\<open>+\<close> (43) and every \<^verbatim>\<open>_\<close> (95)
  becomes \<^verbatim>\<open>/\<close> (47); \<^verbatim>\<open>=\<close> (61) is appended until the length is a multiple of four
  (fewer than four are added); the decoder receives exactly that string. The extraction
  does not raise: when the decoder rejects the string it returns the empty string, and
  when the decoder accepts it, as it does for malformed input whose foreign characters it
  skips, it returns the cleaned text of the decoded bytes (with the tags removed for a
  \<^verbatim>\<open>text/html\<close> part). This holds whether the segment is the payload body or a
  \<^verbatim>\<open>text/plain\<close> or \<^verbatim>\<open>text/html\<close> part, and any other exception of the \<^verbatim>\<open>try\<close> body is
  turned into the empty string as well.
\<close>

theorem b64url_decode_step:
  "b64url_prepare s =
     map (\<lambda>c. if c = 45 then 43 else if c = 95 then 47 else c) s
     @ replicate ((4 - length s mod 4) mod 4) 61
   \<and> length (b64url_prepare s) mod 4 = 0
   \<and> decode_body_data env (VStr s) =
       bindE (b64decode env (b64url_prepare s)) (\<lambda>bytes. Inr (decode_utf8_ignore env bytes))
   \<and> (s \<noteq> [] \<and> b64decode env (b64url_prepare s) = Inl e \<longrightarrow>
        extract_email_content env
          (VDict [(ascii ''payload'', VDict [(ascii ''body'', VDict [(ascii ''data'', VStr s)])])])
        = []
      \<and> extract_email_content env
          (VDict [(ascii ''payload'', VDict [(ascii ''parts'',
             VList [VDict [(ascii ''mimeType'', VStr (ascii ''text/plain'')),
                           (ascii ''body'', VDict [(ascii ''data'', VStr s)])]])])])
        = []
      \<and> extract_email_content env
          (VDict [(ascii ''payload'', VDict [(ascii ''parts'',
             VList [VDict [(ascii ''mimeType'', VStr (ascii ''text/html'')),
                           (ascii ''body'', VDict [(ascii ''data'', VStr s)])]])])])
        = [])
   \<and> (s \<noteq> [] \<and> b64decode env (b64url_prepare s) = Inr bytes \<longrightarrow>
        extract_email_content env
          (VDict [(ascii ''payload'', VDict [(ascii ''body'', VDict [(ascii ''data'', VStr s)])])])
        = clean_email_text env (decode_utf8_ignore env bytes)
      \<and> extract_email_content env
          (VDict [(ascii ''payload'', VDict [(ascii ''parts'',
             VList [VDict [(ascii ''mimeType'', VStr (ascii ''text/plain'')),
                           (ascii ''body'', VDict [(ascii ''data'', VStr s)])]])])])
        = clean_email_text env (decode_utf8_ignore env bytes)
      \<and> extract_email_content env
          (VDict [(ascii ''payload'', VDict [(ascii ''parts'',
             VList [VDict [(ascii ''mimeType'', VStr (ascii ''text/html'')),
                           (ascii ''body'', VDict [(ascii ''data'', VStr s)])]])])])
        = clean_email_text env (re_sub env TAG_RE [] (decode_utf8_ignore env bytes) False))
   \<and> (extract_email_content_try env msg = Inl e' \<longrightarrow> extract_email_content env msg = [])"
proof (intro conjI impI)
  show "b64url_prepare s =
     map (\<lambda>c. if c = 45 then 43 else if c = 95 then 47 else c) s
     @ replicate ((4 - length s mod 4) mod 4) 61"
    by (rule b64url_prepare_eq)
  show "length (b64url_prepare s) mod 4 = 0"
    by (rule b64url_prepare_length)
  show "decode_body_data env (VStr s) =
       bindE (b64decode env (b64url_prepare s)) (\<lambda>bytes. Inr (decode_utf8_ignore env bytes))"
    by (simp add: decode_body_data_def)
next
  assume a: "s \<noteq> [] \<and> b64decode env (b64url_prepare s) = Inl e"
  have "extract_email_content_try env
          (VDict [(ascii ''payload'', VDict [(ascii ''body'', VDict [(ascii ''data'', VStr s)])])])
        = Inl e"
    using a extract_body_malformed [where m = "[(ascii ''payload'', VDict [(ascii ''body'', VDict [(ascii ''data'', VStr s)])])]"
        and p = "[(ascii ''body'', VDict [(ascii ''data'', VStr s)])]"
        and b = "[(ascii ''data'', VStr s)]" and s = s and env = env and e = e]
    by simp
  then show "extract_email_content env
          (VDict [(ascii ''payload'', VDict [(ascii ''body'', VDict [(ascii ''data'', VStr s)])])])
        = []"
    by (simp add: extract_email_content_def)
next
  assume a: "s \<noteq> [] \<and> b64decode env (b64url_prepare s) = Inl e"
  have "extract_email_content_try env
          (VDict [(ascii ''payload'', VDict [(ascii ''parts'',
             VList [VDict [(ascii ''mimeType'', VStr (ascii ''text/plain'')),
                           (ascii ''body'', VDict [(ascii ''data'', VStr s)])]])])])
        = Inl e"
    using a extract_part_malformed [where p = "[(ascii ''parts'',
             VList [VDict [(ascii ''mimeType'', VStr (ascii ''text/plain'')),
                           (ascii ''body'', VDict [(ascii ''data'', VStr s)])]])]"
        and part = "[(ascii ''mimeType'', VStr (ascii ''text/plain'')),
                           (ascii ''body'', VDict [(ascii ''data'', VStr s)])]"
        and rest = "[]"
        and b = "[(ascii ''data'', VStr s)]" and s = s and env = env and e = e]
    by simp
  then show "extract_email_content env
          (VDict [(ascii ''payload'', VDict [(ascii ''parts'',
             VList [VDict [(ascii ''mimeType'', VStr (ascii ''text/plain'')),
                           (ascii ''body'', VDict [(ascii ''data'', VStr s)])]])])])
        = []"
    by (simp add: extract_email_content_def)
next
  assume a: "s \<noteq> [] \<and> b64decode env (b64url_prepare s) = Inl e"
  have "extract_email_content_try env
          (VDict [(ascii ''payload'', VDict [(ascii ''parts'',
             VList [VDict [(ascii ''mimeType'', VStr (ascii ''text/html'')),
                           (ascii ''body'', VDict [(ascii ''data'', VStr s)])]])])])
        = Inl e"
    using a extract_part_malformed [where p = "[(ascii ''parts'',
             VList [VDict [(ascii ''mimeType'', VStr (ascii ''text/html'')),
                           (ascii ''body'', VDict [(ascii ''data'', VStr s)])]])]"
        and part = "[(ascii ''mimeType'', VStr (ascii ''text/html'')),
                           (ascii ''body'', VDict [(ascii ''data'', VStr s)])]"
        and rest = "[]"
        and b = "[(ascii ''data'', VStr s)]" and s = s and env = env and e = e]
    by simp
  then show "extract_email_content env
          (VDict [(ascii ''payload'', VDict [(ascii ''parts'',
             VList [VDict [(ascii ''mimeType'', VStr (ascii ''text/html'')),
                           (ascii ''body'', VDict [(ascii ''data'', VStr s)])]])])])
        = []"
    by (simp add: extract_email_content_def)
next
  assume a: "s \<noteq> [] \<and> b64decode env (b64url_prepare s) = Inr bytes"
  have "extract_email_content_try env
          (VDict [(ascii ''payload'', VDict [(ascii ''body'', VDict [(ascii ''data'', VStr s)])])])
        = Inr (clean_email_text env (decode_utf8_ignore env bytes))"
    using a extract_body_decoded [where p = "[(ascii ''body'', VDict [(ascii ''data'', VStr s)])]"
        and b = "[(ascii ''data'', VStr s)]" and s = s and env = env and bytes = bytes]
    by simp
  then show "extract_email_content env
          (VDict [(ascii ''payload'', VDict [(ascii ''body'', VDict [(ascii ''data'', VStr s)])])])
        = clean_email_text env (decode_utf8_ignore env bytes)"
    by (simp add: extract_email_content_def)
next
  assume a: "s \<noteq> [] \<and> b64decode env (b64url_prepare s) = Inr bytes"
  have "extract_email_content_try env
          (VDict [(ascii ''payload'', VDict [(ascii ''parts'',
             VList [VDict [(ascii ''mimeType'', VStr (ascii ''text/plain'')),
                           (ascii ''body'', VDict [(ascii ''data'', VStr s)])]])])])
        = Inr (clean_email_text env (decode_utf8_ignore env bytes))"
    using a extract_part_plain_decoded [where p = "[(ascii ''parts'',
             VList [VDict [(ascii ''mimeType'', VStr (ascii ''text/plain'')),
                           (ascii ''body'', VDict [(ascii ''data'', VStr s)])]])]"
        and part = "[(ascii ''mimeType'', VStr (ascii ''text/plain'')),
                           (ascii ''body'', VDict [(ascii ''data'', VStr s)])]"
        and rest = "[]"
        and b = "[(ascii ''data'', VStr s)]" and s = s and env = env and bytes = bytes]
    by simp
  then show "extract_email_content env
          (VDict [(ascii ''payload'', VDict [(ascii ''parts'',
             VList [VDict [(ascii ''mimeType'', VStr (ascii ''text/plain'')),
                           (ascii ''body'', VDict [(ascii ''data'', VStr s)])]])])])
        = clean_email_text env (decode_utf8_ignore env bytes)"
    by (simp add: extract_email_content_def)
next
  assume a: "s \<noteq> [] \<and> b64decode env (b64url_prepare s) = Inr bytes"
  have "extract_email_content_try env
          (VDict [(ascii ''payload'', VDict [(ascii ''parts'',
             VList [VDict [(ascii ''mimeType'', VStr (ascii ''text/html'')),
                           (ascii ''body'', VDict [(ascii ''data'', VStr s)])]])])])
        = Inr (clean_email_text env (re_sub env TAG_RE [] (decode_utf8_ignore env bytes) False))"
    using a extract_part_html_decoded [where p = "[(ascii ''parts'',
             VList [VDict [(ascii ''mimeType'', VStr (ascii ''text/html'')),
                           (ascii ''body'', VDict [(ascii ''data'', VStr s)])]])]"
        and part = "[(ascii ''mimeType'', VStr (ascii ''text/html'')),
                           (ascii ''body'', VDict [(ascii ''data'', VStr s)])]"
        and rest = "[]"
        and b = "[(ascii ''data'', VStr s)]" and s = s and env = env and bytes = bytes]
    by simp
  then show "extract_email_content env
          (VDict [(ascii ''payload'', VDict [(ascii ''parts'',
             VList [VDict [(ascii ''mimeType'', VStr (ascii ''text/html'')),
                           (ascii ''body'', VDict [(ascii ''data'', VStr s)])]])])])
        = clean_email_text env (re_sub env TAG_RE [] (decode_utf8_ignore env bytes) False)"
    by (simp add: extract_email_content_def)
next
  assume "extract_email_content_try env msg = Inl e'"
  then show "extract_email_content env msg = []"
    by (simp add: extract_email_content_def)
qed


theorem b64url_decode_step_witness:
  "b64url_prepare (ascii ''a-_'') = ascii ''a+/=''
   \<and> length (b64url_prepare (ascii ''a-_'')) mod 4 = 0
   \<and> extract_email_content (demo_env cc_down js_fail gw_fail ini_fail)
         (VDict [(ascii ''payload'', VDict [(ascii ''body'', VDict [(ascii ''data'', VStr (ascii ''aGk$''))])])])
       = []
   \<and> extract_email_content (demo_env cc_down js_fail gw_fail ini_fail)
         (VDict [(ascii ''payload'', VDict [(ascii ''body'', VDict [(ascii ''data'', VStr (ascii ''aGk''))])])])
       = ascii ''hi''
   \<and> extract_email_content (demo_env cc_down js_fail gw_fail ini_fail) (VInt 3) = []"
proof -
  let ?E = "demo_env cc_down js_fail gw_fail ini_fail"
  note F = b64url_decode_step [of "ascii ''aGk$''" ?E "ServiceError (ascii ''Incorrect padding'')"
      "[]" "VInt 3" AttributeError]
  note G = b64url_decode_step [of "ascii ''aGk''" ?E "ServiceError (ascii ''Incorrect padding'')"
      "[104, 105]" "VInt 3" AttributeError]
  note H = b64url_decode_step [of "ascii ''a-_''" ?E "ServiceError (ascii ''Incorrect padding'')"
      "[]" "VInt 3" AttributeError]
  have n: "ascii ''aGk$'' \<noteq> []" "ascii ''aGk'' \<noteq> []"
    by (simp_all add: ascii_def)
  have f: "b64decode ?E (b64url_prepare (ascii ''aGk$'')) = Inl (ServiceError (ascii ''Incorrect padding''))"
    by (simp add: demo_prepare std_decode_examples demo_decoders)
  have g: "b64decode ?E (b64url_prepare (ascii ''aGk'')) = Inr [104, 105]"
    by (simp add: demo_prepare std_decode_examples demo_decoders)
  have c: "clean_email_text ?E (decode_utf8_ignore ?E [104, 105]) = ascii ''hi''"
    by (simp add: demo_clean demo_decoders)
  have t: "extract_email_content_try ?E (VInt 3) = Inl AttributeError"
    by (simp add: extract_email_content_try_def)
  have 1: "b64url_prepare (ascii ''a-_'') = ascii ''a+/=''"
    by (rule trans [OF H [THEN conjunct1]]) (simp add: ascii_def)
  have 2: "length (b64url_prepare (ascii ''a-_'')) mod 4 = 0"
    by (rule H [THEN conjunct2, THEN conjunct1])
  have 3: "extract_email_content ?E
         (VDict [(ascii ''payload'', VDict [(ascii ''body'', VDict [(ascii ''data'', VStr (ascii ''aGk$''))])])])
       = []"
    by (rule F [THEN conjunct2, THEN conjunct2, THEN conjunct2, THEN conjunct1,
          THEN mp, OF conjI [OF n(1) f], THEN conjunct1])
  have 4: "extract_email_content ?E
         (VDict [(ascii ''payload'', VDict [(ascii ''body'', VDict [(ascii ''data'', VStr (ascii ''aGk''))])])])
       = ascii ''hi''"
    by (rule trans [OF G [THEN conjunct2, THEN conjunct2, THEN conjunct2, THEN conjunct2,
          THEN conjunct1, THEN mp, OF conjI [OF n(2) g], THEN conjunct1] c])
  have 5: "extract_email_content ?E (VInt 3) = []"
    by (rule F [THEN conjunct2, THEN conjunct2, THEN conjunct2, THEN conjunct2, THEN conjunct2,
          THEN mp, OF t])
  show ?thesis
    by (intro conjI) (rule 1, rule 2, rule 3, rule 4, rule 5)
qed

section \<open>Truncation of previews\<close>

lemma truncate_preview_str:
  "truncate_preview budget (VStr s) =
     Inr (VStr (if budget < length s then take budget s @ ascii ''...'' else s))"
  by (simp add: truncate_preview_def py_len_def py_slice_to_def py_add_str_def)

lemma format_email_preview:
  assumes "s \<noteq> []"
    and "map_of m (ascii ''preview'') = Some (VDict p)"
    and "map_of p (ascii ''body'') = Some (VStr s)"
  shows "format_email env (i, VDict m) =
        Inr [10 # 128232 # ascii '' Email #'' @ str_of_nat i,
             128203 # ascii '' Subject: '' @ py_str env
               (case map_of m (ascii ''subject'') of Some v \<Rightarrow> v | None \<Rightarrow> VStr (ascii ''No Subject'')),
             128100 # ascii '' From: '' @ py_str env
               (case map_of m (ascii ''sender'') of Some v \<Rightarrow> v | None \<Rightarrow> VStr (ascii ''Unknown Sender'')),
             128197 # ascii '' Date: '' @ py_str env (format_timestamp env
               (case map_of m (ascii ''messageTimestamp'') of Some v \<Rightarrow> v | None \<Rightarrow> VStr [])),
             128221 # ascii '' Preview: '' @ (if 200 < length s then take 200 s @ ascii ''...'' else s),
             replicate 40 45]"
  using assms
  by (simp add: format_email_def truncate_preview_str py_str_def)

lemma format_email_full_content:
  assumes "s \<noteq> []"
    and "extract_email_content env (VDict m) = s"
  shows "format_email_full env (i, VDict m) =
        Inr [10 # 128232 # ascii '' Email #'' @ str_of_nat i,
             128203 # ascii '' Subject: '' @ py_str env
               (case map_of m (ascii ''subject'') of Some v \<Rightarrow> v | None \<Rightarrow> VStr (ascii ''No Subject'')),
             128100 # ascii '' From: '' @ py_str env
               (case map_of m (ascii ''sender'') of Some v \<Rightarrow> v | None \<Rightarrow> VStr (ascii ''Unknown Sender'')),
             128197 # ascii '' Date: '' @ py_str env (format_timestamp env
               (case map_of m (ascii ''messageTimestamp'') of Some v \<Rightarrow> v | None \<Rightarrow> VStr [])),
             128221 # ascii '' Full Content: '' @ (if 1000 < length s then take 1000 s @ ascii ''...'' else s),
             replicate 40 45]"
  using assms
  by (simp add: format_email_full_def truncate_preview_str py_str_def Let_def)

lemma format_draft_preview:
  assumes "s \<noteq> []"
    and "map_of d (ascii ''message'') = Some (VDict m)"
    and "map_of m (ascii ''preview'') = Some (VDict p)"
    and "map_of p (ascii ''body'') = Some (VStr s)"
  shows "format_draft env (i, VDict d) =
        Inr [10 # 128221 # ascii '' Draft #'' @ str_of_nat i,
             128203 # ascii '' Subject: '' @ py_str env
               (case map_of m (ascii ''subject'') of Some v \<Rightarrow> v | None \<Rightarrow> VStr (ascii ''No Subject'')),
             128197 # ascii '' Created: '' @ py_str env (format_timestamp env
               (case map_of m (ascii ''messageTimestamp'') of Some v \<Rightarrow> v | None \<Rightarrow> VStr [])),
             128196 # ascii '' Content: '' @ (if 150 < length s then take 150 s @ ascii ''...'' else s),
             replicate 30 45]"
  using assms
  by (simp add: format_draft_def truncate_preview_str py_str_def)

lemma collect_around:
  assumes "collect f (enumerate 1 before) = Inr ls_before"
    and "f (Suc (length before), x) = Inr ls"
    and "collect f (enumerate (Suc (Suc (length before))) after) = Inr ls_after"
  shows "collect f (enumerate 1 (before @ x # after)) = Inr (ls_before @ ls @ ls_after)"
  using assms by (simp add: enumerate_append_eq collect_append)

lemma format_emails_preview:
  assumes h1: "s \<noteq> []"
    and h2: "map_of m (ascii ''preview'') = Some (VDict p)"
    and h3: "map_of p (ascii ''body'') = Some (VStr s)"
    and cb: "collect (format_email env) (enumerate 1 before) = Inr ls_before"
    and ca: "collect (format_email env) (enumerate (Suc (Suc (length before))) after) = Inr ls_after"
  shows "format_emails env (VList (before @ VDict m # after)) =
        Inr ([128231 # ascii '' Found '' @ str_of_nat (Suc (length before + length after)) @ ascii '' email(s):'',
              replicate 60 61]
             @ ls_before @
            [10 # 128232 # ascii '' Email #'' @ str_of_nat (Suc (length before)),
             128203 # ascii '' Subject: '' @ py_str env
               (case map_of m (ascii ''subject'') of Some v \<Rightarrow> v | None \<Rightarrow> VStr (ascii ''No Subject'')),
             128100 # ascii '' From: '' @ py_str env
               (case map_of m (ascii ''sender'') of Some v \<Rightarrow> v | None \<Rightarrow> VStr (ascii ''Unknown Sender'')),
             128197 # ascii '' Date: '' @ py_str env (format_timestamp env
               (case map_of m (ascii ''messageTimestamp'') of Some v \<Rightarrow> v | None \<Rightarrow> VStr [])),
             128221 # ascii '' Preview: '' @ (if 200 < length s then take 200 s @ ascii ''...'' else s),
             replicate 40 45]
             @ ls_after)"
proof -
  note b = format_email_preview [where i = "Suc (length before)", OF h1 h2 h3]
  note c = collect_around [OF cb b ca, unfolded One_nat_def]
  show ?thesis
    by (simp add: format_emails_def py_len_def py_iter_def c)
qed

lemma format_emails_full_content:
  assumes h1: "s \<noteq> []"
    and h2: "extract_email_content env (VDict m) = s"
    and cb: "collect (format_email_full env) (enumerate 1 before) = Inr ls_before"
    and ca: "collect (format_email_full env) (enumerate (Suc (Suc (length before))) after) = Inr ls_after"
  shows "format_emails_with_full_content env (VList (before @ VDict m # after)) =
        Inr (str_join [10]
          ([128231 # ascii '' Found '' @ str_of_nat (Suc (length before + length after)) @ ascii '' email(s):'',
              replicate 60 61]
             @ ls_before @
            [10 # 128232 # ascii '' Email #'' @ str_of_nat (Suc (length before)),
             128203 # ascii '' Subject: '' @ py_str env
               (case map_of m (ascii ''subject'') of Some v \<Rightarrow> v | None \<Rightarrow> VStr (ascii ''No Subject'')),
             128100 # ascii '' From: '' @ py_str env
               (case map_of m (ascii ''sender'') of Some v \<Rightarrow> v | None \<Rightarrow> VStr (ascii ''Unknown Sender'')),
             128197 # ascii '' Date: '' @ py_str env (format_timestamp env
               (case map_of m (ascii ''messageTimestamp'') of Some v \<Rightarrow> v | None \<Rightarrow> VStr [])),
             128221 # ascii '' Full Content: '' @ (if 1000 < length s then take 1000 s @ ascii ''...'' else s),
             replicate 40 45]
             @ ls_after))"
proof -
  note b = format_email_full_content [where i = "Suc (length before)", OF h1 h2]
  note c = collect_around [OF cb b ca, unfolded One_nat_def]
  show ?thesis
    by (simp add: format_emails_with_full_content_def py_len_def py_iter_def c)
qed

lemma format_drafts_preview:
  assumes h1: "s \<noteq> []"
    and h2: "map_of d (ascii ''message'') = Some (VDict m)"
    and h3: "map_of m (ascii ''preview'') = Some (VDict p)"
    and h4: "map_of p (ascii ''body'') = Some (VStr s)"
    and cb: "collect (format_draft env) (enumerate 1 before) = Inr ls_before"
    and ca: "collect (format_draft env) (enumerate (Suc (Suc (length before))) after) = Inr ls_after"
  shows "format_drafts env (VList (before @ VDict d # after)) =
        Inr ([128221 # ascii '' Found '' @ str_of_nat (Suc (length before + length after)) @ ascii '' draft(s):'',
              replicate 50 61]
             @ ls_before @
            [10 # 128221 # ascii '' Draft #'' @ str_of_nat (Suc (length before)),
             128203 # ascii '' Subject: '' @ py_str env
               (case map_of m (ascii ''subject'') of Some v \<Rightarrow> v | None \<Rightarrow> VStr (ascii ''No Subject'')),
             128197 # ascii '' Created: '' @ py_str env (format_timestamp env
               (case map_of m (ascii ''messageTimestamp'') of Some v \<Rightarrow> v | None \<Rightarrow> VStr [])),
             128196 # ascii '' Content: '' @ (if 150 < length s then take 150 s @ ascii ''...'' else s),
             replicate 30 45]
             @ ls_after)"
proof -
  note b = format_draft_preview [where i = "Suc (length before)", OF h1 h2 h3 h4]
  note c = collect_around [OF cb b ca, unfolded One_nat_def]
  show ?thesis
    by (simp add: format_drafts_def py_len_def py_iter_def c)
qed

text \<open>
  Claim C4. For every string \<open>s\<close> that is displayed as an e-mail preview, as full content
  or as a draft preview (a non-empty string: an empty one is not displayed), the line shows
  \<open>s\<close> unchanged when its length is at most the budget, and otherwise exactly its first
  budget-many characters followed by the three-character marker \<^verbatim>\<open>...\<close>. The budgets are
  200 for the preview, 1000 for the full content and 150 for the draft preview. This is
  stated for the truncation step, for the lines that each loop body produces for one
  message or draft, and for the reports of \<^verbatim>\<open>_format_emails\<close>,
  \<^verbatim>\<open>_format_emails_with_full_content\<close> and \<^verbatim>\<open>_format_drafts\<close>, where the message or draft
  stands at any position of the list and the entries before and after it contribute the
  lines \<open>ls_before\<close> and \<open>ls_after\<close>.
\<close>

theorem truncation_law:
  "truncate_preview budget (VStr s) =
     Inr (VStr (if budget < length s then take budget s @ ascii ''...'' else s))
   \<and> (s \<noteq> [] \<and> map_of m (ascii ''preview'') = Some (VDict p)
        \<and> map_of p (ascii ''body'') = Some (VStr s) \<longrightarrow>
      format_email env (i, VDict m) =
        Inr [10 # 128232 # ascii '' Email #'' @ str_of_nat i,
             128203 # ascii '' Subject: '' @ py_str env
               (case map_of m (ascii ''subject'') of Some v \<Rightarrow> v | None \<Rightarrow> VStr (ascii ''No Subject'')),
             128100 # ascii '' From: '' @ py_str env
               (case map_of m (ascii ''sender'') of Some v \<Rightarrow> v | None \<Rightarrow> VStr (ascii ''Unknown Sender'')),
             128197 # ascii '' Date: '' @ py_str env (format_timestamp env
               (case map_of m (ascii ''messageTimestamp'') of Some v \<Rightarrow> v | None \<Rightarrow> VStr [])),
             128221 # ascii '' Preview: '' @ (if 200 < length s then take 200 s @ ascii ''...'' else s),
             replicate 40 45])
   \<and> (s \<noteq> [] \<and> extract_email_content env (VDict m) = s \<longrightarrow>
      format_email_full env (i, VDict m) =
        Inr [10 # 128232 # ascii '' Email #'' @ str_of_nat i,
             128203 # ascii '' Subject: '' @ py_str env
               (case map_of m (ascii ''subject'') of Some v \<Rightarrow> v | None \<Rightarrow> VStr (ascii ''No Subject'')),
             128100 # ascii '' From: '' @ py_str env
               (case map_of m (ascii ''sender'') of Some v \<Rightarrow> v | None \<Rightarrow> VStr (ascii ''Unknown Sender'')),
             128197 # ascii '' Date: '' @ py_str env (format_timestamp env
               (case map_of m (ascii ''messageTimestamp'') of Some v \<Rightarrow> v | None \<Rightarrow> VStr [])),
             128221 # ascii '' Full Content: '' @ (if 1000 < length s then take 1000 s @ ascii ''...'' else s),
             replicate 40 45])
   \<and> (s \<noteq> [] \<and> map_of d (ascii ''message'') = Some (VDict m)
        \<and> map_of m (ascii ''preview'') = Some (VDict p)
        \<and> map_of p (ascii ''body'') = Some (VStr s) \<longrightarrow>
      format_draft env (i, VDict d) =
        Inr [10 # 128221 # ascii '' Draft #'' @ str_of_nat i,
             128203 # ascii '' Subject: '' @ py_str env
               (case map_of m (ascii ''subject'') of Some v \<Rightarrow> v | None \<Rightarrow> VStr (ascii ''No Subject'')),
             128197 # ascii '' Created: '' @ py_str env (format_timestamp env
               (case map_of m (ascii ''messageTimestamp'') of Some v \<Rightarrow> v | None \<Rightarrow> VStr [])),
             128196 # ascii '' Content: '' @ (if 150 < length s then take 150 s @ ascii ''...'' else s),
             replicate 30 45])
   \<and> (s \<noteq> [] \<and> map_of m (ascii ''preview'') = Some (VDict p)
        \<and> map_of p (ascii ''body'') = Some (VStr s)
        \<and> collect (format_email env) (enumerate 1 before) = Inr ls_before
        \<and> collect (format_email env) (enumerate (Suc (Suc (length before))) after) = Inr ls_after \<longrightarrow>
      format_emails env (VList (before @ VDict m # after)) =
        Inr ([128231 # ascii '' Found '' @ str_of_nat (Suc (length before + length after)) @ ascii '' email(s):'',
              replicate 60 61]
             @ ls_before @
            [10 # 128232 # ascii '' Email #'' @ str_of_nat (Suc (length before)),
             128203 # ascii '' Subject: '' @ py_str env
               (case map_of m (ascii ''subject'') of Some v \<Rightarrow> v | None \<Rightarrow> VStr (ascii ''No Subject'')),
             128100 # ascii '' From: '' @ py_str env
               (case map_of m (ascii ''sender'') of Some v \<Rightarrow> v | None \<Rightarrow> VStr (ascii ''Unknown Sender'')),
             128197 # ascii '' Date: '' @ py_str env (format_timestamp env
               (case map_of m (ascii ''messageTimestamp'') of Some v \<Rightarrow> v | None \<Rightarrow> VStr [])),
             128221 # ascii '' Preview: '' @ (if 200 < length s then take 200 s @ ascii ''...'' else s),
             replicate 40 45]
             @ ls_after))
   \<and> (s \<noteq> [] \<and> extract_email_content env (VDict m) = s
        \<and> collect (format_email_full env) (enumerate 1 before) = Inr ls_before
        \<and> collect (format_email_full env) (enumerate (Suc (Suc (length before))) after) = Inr ls_after \<longrightarrow>
      format_emails_with_full_content env (VList (before @ VDict m # after)) =
        Inr (str_join [10]
          ([128231 # ascii '' Found '' @ str_of_nat (Suc (length before + length after)) @ ascii '' email(s):'',
              replicate 60 61]
             @ ls_before @
            [10 # 128232 # ascii '' Email #'' @ str_of_nat (Suc (length before)),
             128203 # ascii '' Subject: '' @ py_str env
               (case map_of m (ascii ''subject'') of Some v \<Rightarrow> v | None \<Rightarrow> VStr (ascii ''No Subject'')),
             128100 # ascii '' From: '' @ py_str env
               (case map_of m (ascii ''sender'') of Some v \<Rightarrow> v | None \<Rightarrow> VStr (ascii ''Unknown Sender'')),
             128197 # ascii '' Date: '' @ py_str env (format_timestamp env
               (case map_of m (ascii ''messageTimestamp'') of Some v \<Rightarrow> v | None \<Rightarrow> VStr [])),
             128221 # ascii '' Full Content: '' @ (if 1000 < length s then take 1000 s @ ascii ''...'' else s),
             replicate 40 45]
             @ ls_after)))
   \<and> (s \<noteq> [] \<and> map_of d (ascii ''message'') = Some (VDict m)
        \<and> map_of m (ascii ''preview'') = Some (VDict p)
        \<and> map_of p (ascii ''body'') = Some (VStr s)
        \<and> collect (format_draft env) (enumerate 1 before) = Inr ls_before
        \<and> collect (format_draft env) (enumerate (Suc (Suc (length before))) after) = Inr ls_after \<longrightarrow>
      format_drafts env (VList (before @ VDict d # after)) =
        Inr ([128221 # ascii '' Found '' @ str_of_nat (Suc (length before + length after)) @ ascii '' draft(s):'',
              replicate 50 61]
             @ ls_before @
            [10 # 128221 # ascii '' Draft #'' @ str_of_nat (Suc (length before)),
             128203 # ascii '' Subject: '' @ py_str env
               (case map_of m (ascii ''subject'') of Some v \<Rightarrow> v | None \<Rightarrow> VStr (ascii ''No Subject'')),
             128197 # ascii '' Created: '' @ py_str env (format_timestamp env
               (case map_of m (ascii ''messageTimestamp'') of Some v \<Rightarrow> v | None \<Rightarrow> VStr [])),
             128196 # ascii '' Content: '' @ (if 150 < length s then take 150 s @ ascii ''...'' else s),
             replicate 30 45]
             @ ls_after))"
  by (intro conjI impI)
    (rule truncate_preview_str,
     (elim conjE, rule format_email_preview, assumption+),
     (elim conjE, rule format_email_full_content, assumption+),
     (elim conjE, rule format_draft_preview, assumption+),
     (elim conjE, rule format_emails_preview, assumption+),
     (elim conjE, rule format_emails_full_content, assumption+),
     (elim conjE, rule format_drafts_preview, assumption+))

lemma a2b_base64_xxx:
  "a2b_base64 (concat (replicate n (ascii ''eHh4'')) @ rest) 0 0 0 out =
     a2b_base64 rest 0 0 0 (out @ replicate (3 * n) 120)"
proof (induction n arbitrary: out)
  case 0
  show ?case by simp
next
  case (Suc n)
  have "a2b_base64 (ascii ''eHh4'' @ concat (replicate n (ascii ''eHh4'')) @ rest) 0 0 0 out =
        a2b_base64 (concat (replicate n (ascii ''eHh4'')) @ rest) 0 0 0 (out @ [120, 120, 120])"
    by (simp add: ascii_def b64_value_def)
  moreover have "replicate (3 * Suc n) (120::nat) = [120, 120, 120] @ replicate (3 * n) 120"
  proof -
    have e: "3 * Suc n = Suc (Suc (Suc (3 * n)))" by arith
    show ?thesis by (simp only: e replicate.simps append.simps)
  qed
  ultimately show ?case
    using Suc.IH [of "out @ [120, 120, 120]"] by simp
qed

lemma xxx_ascii: "list_all (\<lambda>c. c < 128) (concat (replicate n (ascii ''eHh4'')))"
  by (induction n) (simp_all add: ascii_def)

lemma std_b64decode_xxx:
  "std_b64decode (concat (replicate n (ascii ''eHh4''))) = Inr (replicate (3 * n) 120)"
  using a2b_base64_xxx [of n "[]" "[]"] by (simp add: std_b64decode_def xxx_ascii)

lemma std_utf8_ignore_xxx: "std_utf8_ignore (replicate k 120) = replicate k 120"
  by (induction k) simp_all

lemma b64url_prepare_xxx:
  "b64url_prepare (concat (replicate n (ascii ''eHh4''))) = concat (replicate n (ascii ''eHh4''))"
proof -
  have l: "length (concat (replicate n (ascii ''eHh4''))) = 4 * n"
    by (induction n) (simp_all add: ascii_def)
  have m: "map (\<lambda>c. if c = 45 then 43 else if c = 95 then 47 else c)
             (concat (replicate n (ascii ''eHh4''))) = concat (replicate n (ascii ''eHh4''))"
    by (induction n) (simp_all add: ascii_def)
  show ?thesis
    by (simp add: b64url_prepare_eq l m)
qed

lemma demo_clean_xxx:
  "clean_email_text (demo_env cc js gw ini) (replicate (Suc k) 120) = replicate (Suc k) 120"
proof -
  have "\<not> py_isspace 120" by (simp add: py_isspace_def)
  then have d: "dropWhile py_isspace (replicate (Suc k) 120) = replicate (Suc k) 120"
    by simp
  have r: "rev (replicate (Suc k) (120::nat)) = replicate (Suc k) 120"
    by (rule rev_replicate)
  have "str_strip (replicate (Suc k) 120) = replicate (Suc k) 120"
    by (simp only: str_strip_def d r)
  then show ?thesis
    by (simp add: clean_email_text_def demo_env_def)
qed

lemma demo_long_extract:
  "extract_email_content (demo_env cc js gw ini) (VDict demo_long_message) = replicate 1002 120"
proof -
  let ?E = "demo_env cc js gw ini"
  let ?s = "concat (replicate 334 (ascii ''eHh4''))"
  have ne: "ascii ''eHh4'' \<noteq> []"
    by (simp add: ascii_def)
  have d: "b64decode ?E (b64url_prepare ?s) = Inr (replicate 1002 120)"
    using std_b64decode_xxx [of 334] by (simp add: b64url_prepare_xxx demo_decoders)
  have c: "clean_email_text ?E (decode_utf8_ignore ?E (replicate 1002 120)) = replicate 1002 120"
    using demo_clean_xxx [of cc js gw ini 1001] by (simp add: demo_decoders std_utf8_ignore_xxx)
  have "extract_email_content_try ?E (VDict demo_long_message)
          = Inr (clean_email_text ?E (decode_utf8_ignore ?E (replicate 1002 120)))"
    by (rule extract_body_decoded [where s = ?s and p = "[(ascii ''body'',
               VDict [(ascii ''data'', VStr ?s)])]" and b = "[(ascii ''data'', VStr ?s)]"])
      (simp_all add: demo_long_message_def ne d)
  then show ?thesis
    by (simp add: extract_email_content_def c)
qed

theorem truncation_law_witness:
  "format_emails (demo_env cc_down js_fail gw_fail ini_fail) (VList [VDict demo_long_message]) =
     Inr [128231 # ascii '' Found 1 email(s):'',
          replicate 60 61,
          10 # 128232 # ascii '' Email #1'',
          128203 # ascii '' Subject: No Subject'',
          128100 # ascii '' From: Unknown Sender'',
          128197 # ascii '' Date: Unknown Date'',
          128221 # ascii '' Preview: '' @ replicate 200 120 @ ascii ''...'',
          replicate 40 45]
   \<and> format_emails_with_full_content (demo_env cc_down js_fail gw_fail ini_fail)
       (VList [VDict demo_long_message]) =
     Inr (str_join [10]
         [128231 # ascii '' Found 1 email(s):'',
          replicate 60 61,
          10 # 128232 # ascii '' Email #1'',
          128203 # ascii '' Subject: No Subject'',
          128100 # ascii '' From: Unknown Sender'',
          128197 # ascii '' Date: Unknown Date'',
          128221 # ascii '' Full Content: '' @ replicate 1000 120 @ ascii ''...'',
          replicate 40 45])
   \<and> format_drafts (demo_env cc_down js_fail gw_fail ini_fail) (VList [VDict demo_long_draft]) =
     Inr [128221 # ascii '' Found 1 draft(s):'',
          replicate 50 61,
          10 # 128221 # ascii '' Draft #1'',
          128203 # ascii '' Subject: No Subject'',
          128197 # ascii '' Created: Unknown Date'',
          128196 # ascii '' Content: '' @ replicate 150 120 @ ascii ''...'',
          replicate 30 45]"
proof -
  let ?E = "demo_env cc_down js_fail gw_fail ini_fail"
  let ?p = "[(ascii ''body'', VStr (replicate 201 120))]"
  note P = truncation_law [where budget = 200 and s = "replicate 201 120"
      and m = demo_long_message and p = ?p and env = ?E and i = 1 and d = demo_long_draft
      and before = "[]" and ls_before = "[]" and after = "[]" and ls_after = "[]"]
  note F = truncation_law [where budget = 200 and s = "replicate 1002 120"
      and m = demo_long_message and p = ?p and env = ?E and i = 1 and d = demo_long_draft
      and before = "[]" and ls_before = "[]" and after = "[]" and ls_after = "[]"]
  have hp: "replicate 201 (120::nat) \<noteq> []
      \<and> map_of demo_long_message (ascii ''preview'') = Some (VDict ?p)
      \<and> map_of ?p (ascii ''body'') = Some (VStr (replicate 201 120))
      \<and> collect (format_email ?E) (enumerate 1 []) = Inr []
      \<and> collect (format_email ?E) (enumerate (Suc (Suc (length ([]::pyval list)))) []) = Inr []"
    by (simp add: demo_long_message_def)
  have hf: "replicate 1002 (120::nat) \<noteq> []
      \<and> extract_email_content ?E (VDict demo_long_message) = replicate 1002 120
      \<and> collect (format_email_full ?E) (enumerate 1 []) = Inr []
      \<and> collect (format_email_full ?E) (enumerate (Suc (Suc (length ([]::pyval list)))) []) = Inr []"
    by (simp add: demo_long_extract)
  have hd: "replicate 201 (120::nat) \<noteq> []
      \<and> map_of demo_long_draft (ascii ''message'') = Some (VDict demo_long_message)
      \<and> map_of demo_long_message (ascii ''preview'') = Some (VDict ?p)
      \<and> map_of ?p (ascii ''body'') = Some (VStr (replicate 201 120))
      \<and> collect (format_draft ?E) (enumerate 1 []) = Inr []
      \<and> collect (format_draft ?E) (enumerate (Suc (Suc (length ([]::pyval list)))) []) = Inr []"
    by (simp add: demo_long_message_def demo_long_draft_def)
  note c5 = P [THEN conjunct2, THEN conjunct2, THEN conjunct2, THEN conjunct2, THEN conjunct1,
      THEN mp, OF hp]
  note c6 = F [THEN conjunct2, THEN conjunct2, THEN conjunct2, THEN conjunct2, THEN conjunct2,
      THEN conjunct1, THEN mp, OF hf]
  note c7 = P [THEN conjunct2, THEN conjunct2, THEN conjunct2, THEN conjunct2, THEN conjunct2,
      THEN conjunct2, THEN mp, OF hd]
  have s1: "str_of_nat (Suc 0) = ascii ''1''"
    by (simp add: str_of_nat.simps ascii_def)
  have s2: "format_timestamp ?E (VStr []) = VStr (ascii ''Unknown Date'')"
    by (simp add: format_timestamp_def)
  have a: "\<And>x y. ascii x @ ascii y = ascii (x @ y)"
    by (simp add: ascii_def)
  show ?thesis
    using c5 c6 c7
    by (simp add: demo_long_message_def s1 s2 a py_str_def)
qed

section \<open>Failures while formatting\<close>




lemma ascii_Nil [simp]: "ascii s = [] \<longleftrightarrow> s = []"
  by (simp add: ascii_def)







section \<open>The unauthenticated-access guard\<close>

lemma analyze_user_intent_log:
  "snd (analyze_user_intent env message w) = w @ [Completion (intent_request message)]"
  by (simp add: analyze_user_intent_def analyze_user_intent_try_def create_completion_def
      split: sum.splits prod.splits)


lemma demo_cleaned:
  "str_strip (re_sub (demo_env cc js gw ini) PREFIX_RE [] (ascii ''send mail'') True) = ascii ''send mail''"
  "str_strip (re_sub (demo_env cc js gw ini) PREFIX_RE [] (ascii ''connect gmail'') True) = ascii ''connect gmail''"
  by (simp_all add: demo_env_def str_strip_def ascii_def py_isspace_def)

lemma demo_analyze:
  "analyze_user_intent (demo_env (cc_text t) (js_const v) gw ini) message w =
     (v, w @ [Completion (intent_request message)])"
  by (simp add: analyze_user_intent_def analyze_user_intent_try_def create_completion_def
      demo_env_def cc_text_def first_content_def json_loads_def js_const_def)

lemma demo_session_unauthenticated: "\<not> is_authenticated demo_session"
  by (simp add: is_authenticated_def demo_session_def GmailAgent_init_def)

lemma demo_auth_session_authenticated: "is_authenticated demo_auth_session"
  by (simp add: is_authenticated_def demo_auth_session_def)

text \<open>
  Claim C1 says that for a query whose intent is not AUTH an unauthenticated session
  answers "not authenticated" and that no completion-service or gateway call is made for
  the query. The answer is as claimed and the gateway is not called, but the intent is
  only known after \<^verbatim>\<open>analyze_user_intent\<close> has sent the query to the completion service:
  below, for an unauthenticated session and a query classified as SEND, the log holds
  that one completion request.
\<close>

theorem unauthenticated_guard_counterexample:
  "\<not> is_authenticated demo_session
   \<and> fst (analyze_user_intent (demo_env (cc_text (ascii ''{}'')) (js_const (demo_intent ''SEND'')) gw_fail ini_fail) (ascii ''send mail'') []) = demo_intent ''SEND''
   \<and> process_query (demo_env (cc_text (ascii ''{}'')) (js_const (demo_intent ''SEND'')) gw_fail ini_fail) demo_session (ascii ''send mail'') [] =
       (Inr NOT_AUTHENTICATED, demo_session, [Completion (intent_request (ascii ''send mail''))])
   \<and> snd (snd (process_query (demo_env (cc_text (ascii ''{}'')) (js_const (demo_intent ''SEND'')) gw_fail ini_fail) demo_session (ascii ''send mail'') [])) \<noteq> []"
proof -
  have p: "process_query (demo_env (cc_text (ascii ''{}'')) (js_const (demo_intent ''SEND'')) gw_fail ini_fail) demo_session (ascii ''send mail'') [] =
       (Inr NOT_AUTHENTICATED, demo_session, [Completion (intent_request (ascii ''send mail''))])"
    by (simp add: process_query_def Let_def demo_cleaned demo_analyze demo_intent_def
        demo_session_unauthenticated)
  show ?thesis
    by (simp add: p demo_session_unauthenticated demo_analyze)
qed

text \<open>
  Claim C1, amended. For every incoming query whose classified intent is not AUTH, if the
  session is unauthenticated, \<^verbatim>\<open>process_query\<close> returns success = false with the "not
  authenticated" error, leaves the session as it is, and makes no gateway call and no
  completion-service call other than the single intent-classification request.
\<close>

theorem unauthenticated_guard:
  assumes "analyze_user_intent env (str_strip (re_sub env PREFIX_RE [] user_query True)) w
             = (VDict d, w1)"
    and "(case map_of d (ascii ''intent'') of Some v \<Rightarrow> v | None \<Rightarrow> VStr (ascii ''UNKNOWN''))
           \<noteq> VStr (ascii ''AUTH'')"
    and "\<not> is_authenticated s"
  shows "process_query env s user_query w =
     (Inr (VDict [(ascii ''success'', VBool False),
                  (ascii ''error'',
                   VStr (ascii ''Gmail not authenticated. Send 'Authenticate Gmail' to start auth.''))]),
      s,
      w @ [Completion (intent_request (str_strip (re_sub env PREFIX_RE [] user_query True)))])"
proof -
  have "w1 = w @ [Completion (intent_request (str_strip (re_sub env PREFIX_RE [] user_query True)))]"
    using analyze_user_intent_log [of env "str_strip (re_sub env PREFIX_RE [] user_query True)" w]
      assms(1) by simp
  then show ?thesis
    using assms by (simp add: process_query_def Let_def NOT_AUTHENTICATED_def)
qed


theorem unauthenticated_guard_witness:
  "process_query (demo_env (cc_text (ascii ''{}'')) (js_const (demo_intent ''SEND'')) gw_fail ini_fail) demo_session (ascii ''send mail'') [] =
     (Inr (VDict [(ascii ''success'', VBool False),
                  (ascii ''error'',
                   VStr (ascii ''Gmail not authenticated. Send 'Authenticate Gmail' to start auth.''))]),
      demo_session,
      [] @ [Completion (intent_request (ascii ''send mail''))])"
proof -
  have a: "analyze_user_intent (demo_env (cc_text (ascii ''{}'')) (js_const (demo_intent ''SEND'')) gw_fail ini_fail)
             (str_strip (re_sub (demo_env (cc_text (ascii ''{}'')) (js_const (demo_intent ''SEND'')) gw_fail ini_fail) PREFIX_RE [] (ascii ''send mail'') True)) []
           = (VDict [(ascii ''intent'', VStr (ascii ''SEND'')),
                     (ascii ''parameters'', VDict []),
                     (ascii ''confidence'', VFloat 0.9)],
              [Completion (intent_request (ascii ''send mail''))])"
    by (simp add: demo_cleaned demo_analyze demo_intent_def)
  have i: "(case map_of [(ascii ''intent'', VStr (ascii ''SEND'')),
                         (ascii ''parameters'', VDict []),
                         (ascii ''confidence'', VFloat 0.9)] (ascii ''intent'') of
              Some v \<Rightarrow> v | None \<Rightarrow> VStr (ascii ''UNKNOWN'')) \<noteq> VStr (ascii ''AUTH'')"
    by simp
  show ?thesis
    using unauthenticated_guard [OF a i demo_session_unauthenticated]
    by (simp only: demo_cleaned)
qed

section \<open>The AUTH intent\<close>

text \<open>
  Claim C9. For every session, authenticated or not, a query classified as AUTH calls
  \<^verbatim>\<open>connected_accounts.initiate\<close> for the account (the handshake is attempted: the call is
  logged right after the classification request) and the result is the AUTH result, never
  the "not authenticated" error of the guard.
\<close>

theorem auth_always_initiates:
  assumes "analyze_user_intent env (str_strip (re_sub env PREFIX_RE [] user_query True)) w
             = (VDict d, w1)"
    and "map_of d (ascii ''intent'') = Some (VStr (ascii ''AUTH''))"
  shows "fst (process_query env s user_query w) =
           Inr (VDict [(ascii ''success'', VBool True),
                       (ascii ''intent'', VStr (ascii ''AUTH'')),
                       (ascii ''formatted_result'', VStr (fst (initiate_auth env s w1)))])
         \<and> snd (snd (process_query env s user_query w)) =
           w1 @ [Initiate (user_email s) (auth_config_id s)]
         \<and> fst (process_query env s user_query w) \<noteq> Inr NOT_AUTHENTICATED"
  using assms
  by (simp add: process_query_def Let_def NOT_AUTHENTICATED_def initiate_auth_def
      split: sum.splits prod.splits)


theorem auth_always_initiates_witness:
  "fst (process_query (demo_env (cc_text (ascii ''{}'')) (js_const (demo_intent ''AUTH'')) gw_fail ini_ok) demo_session (ascii ''connect gmail'') []) =
     Inr (VDict [(ascii ''success'', VBool True),
                 (ascii ''intent'', VStr (ascii ''AUTH'')),
                 (ascii ''formatted_result'',
                  VStr (fst (initiate_auth (demo_env (cc_text (ascii ''{}'')) (js_const (demo_intent ''AUTH'')) gw_fail ini_ok) demo_session
                     [Completion (intent_request (ascii ''connect gmail''))])))])
   \<and> snd (snd (process_query (demo_env (cc_text (ascii ''{}'')) (js_const (demo_intent ''AUTH'')) gw_fail ini_ok) demo_session (ascii ''connect gmail'') [])) =
     [Completion (intent_request (ascii ''connect gmail''))]
     @ [Initiate (user_email demo_session) (auth_config_id demo_session)]
   \<and> fst (process_query (demo_env (cc_text (ascii ''{}'')) (js_const (demo_intent ''AUTH'')) gw_fail ini_ok) demo_session (ascii ''connect gmail'') []) \<noteq> Inr NOT_AUTHENTICATED
   \<and> snd (snd (process_query (demo_env (cc_text (ascii ''{}'')) (js_const (demo_intent ''AUTH'')) gw_fail ini_ok) demo_auth_session (ascii ''connect gmail'') [])) =
     [Completion (intent_request (ascii ''connect gmail''))]
     @ [Initiate (user_email demo_auth_session) (auth_config_id demo_auth_session)]"
proof -
  have a: "analyze_user_intent (demo_env (cc_text (ascii ''{}'')) (js_const (demo_intent ''AUTH'')) gw_fail ini_ok)
             (str_strip (re_sub (demo_env (cc_text (ascii ''{}'')) (js_const (demo_intent ''AUTH'')) gw_fail ini_ok) PREFIX_RE [] (ascii ''connect gmail'') True)) []
           = (VDict [(ascii ''intent'', VStr (ascii ''AUTH'')),
                     (ascii ''parameters'', VDict []),
                     (ascii ''confidence'', VFloat 0.9)],
              [Completion (intent_request (ascii ''connect gmail''))])"
    by (simp add: demo_cleaned demo_analyze demo_intent_def)
  have i: "map_of [(ascii ''intent'', VStr (ascii ''AUTH'')),
                   (ascii ''parameters'', VDict []),
                   (ascii ''confidence'', VFloat 0.9)] (ascii ''intent'')
           = Some (VStr (ascii ''AUTH''))"
    by simp
  note A = auth_always_initiates [OF a i, of demo_session]
  note B = auth_always_initiates [OF a i, of demo_auth_session]
  show ?thesis
    by (intro conjI)
      (rule A [THEN conjunct1], rule A [THEN conjunct2, THEN conjunct1],
       rule A [THEN conjunct2, THEN conjunct2], rule B [THEN conjunct2, THEN conjunct1])
qed

section \<open>A handshake that cannot be initiated\<close>

lemma send_reply_str:
  "send_reply (VStr t) s w = (Inr (VStr t), s, w @ [SendChatMessage (VStr t)])"
  by (simp add: send_reply_def py_slice_to_def)

lemma auth_failure_result:
  assumes "analyze_user_intent env (str_strip (re_sub env PREFIX_RE [] user_query True)) w
             = (VDict d, w1)"
    and "map_of d (ascii ''intent'') = Some (VStr (ascii ''AUTH''))"
    and "connected_accounts_initiate env w1 (user_email s) (auth_config_id s) = Inl e"
  shows "process_query env s user_query w =
           (Inr (VDict [(ascii ''success'', VBool True),
                        (ascii ''intent'', VStr (ascii ''AUTH'')),
                        (ascii ''formatted_result'',
                         VStr (ascii ''Error initiating auth: '' @ str_exn env e))]),
            s,
            w1 @ [Initiate (user_email s) (auth_config_id s)])"
  using assms
  by (simp add: process_query_def Let_def initiate_auth_def)

lemma auth_failure_reply:
  "reply_of_result env
     (VDict [(ascii ''success'', VBool True),
             (ascii ''intent'', VStr (ascii ''AUTH'')),
             (ascii ''formatted_result'', VStr t)])
   = Inr (VStr t)"
  by (simp add: reply_of_result_def)

text \<open>
  Claim C10. For every query dispatched with the AUTH intent whose handshake cannot be
  initiated (the call raises \<open>e\<close>), the result of \<^verbatim>\<open>process_query\<close> still has success = true
  and no error field: the text "Error initiating auth: <message>" is its
  \<^verbatim>\<open>formatted_result\<close> and the session is unchanged. The transport adapter delivers it as
  an ordinary reply: when \<^verbatim>\<open>handle_message\<close> receives that query as the text of a turn and
  no handshake is pending, it acknowledges the turn, the classification and the failed
  initiation follow, and the last thing sent is a chat message whose text is exactly
  "Error initiating auth: <message>", with no error marker before it; the session is left
  as it was, so no handshake is pending afterwards either.
\<close>

theorem auth_failure_is_success_result:
  assumes "analyze_user_intent env (str_strip (re_sub env PREFIX_RE [] user_query True)) w
             = (VDict d, w1)"
    and "map_of d (ascii ''intent'') = Some (VStr (ascii ''AUTH''))"
    and "connected_accounts_initiate env w1 (user_email s) (auth_config_id s) = Inl e"
  shows "process_query env s user_query w =
           (Inr (VDict [(ascii ''success'', VBool True),
                        (ascii ''intent'', VStr (ascii ''AUTH'')),
                        (ascii ''formatted_result'',
                         VStr (ascii ''Error initiating auth: '' @ str_exn env e))]),
            s,
            w1 @ [Initiate (user_email s) (auth_config_id s)])
         \<and> reply_of_result env
             (VDict [(ascii ''success'', VBool True),
                     (ascii ''intent'', VStr (ascii ''AUTH'')),
                     (ascii ''formatted_result'',
                      VStr (ascii ''Error initiating auth: '' @ str_exn env e))])
           = Inr (VStr (ascii ''Error initiating auth: '' @ str_exn env e))
         \<and> ((connection_request s = None \<or> is_authenticated s)
              \<and> user_query = message_text content
              \<and> w = w0 @ [SendAcknowledgement] \<longrightarrow>
            handle_message env s content w0 =
              (Inr (VStr (ascii ''Error initiating auth: '' @ str_exn env e)),
               s,
               w1 @ [Initiate (user_email s) (auth_config_id s),
                     SendChatMessage (VStr (ascii ''Error initiating auth: '' @ str_exn env e))]))
         \<and> hd (ascii ''Error initiating auth: '' @ str_exn env e) \<noteq> 10060"
proof (intro conjI impI)
  note p = auth_failure_result [OF assms]
  show "process_query env s user_query w =
           (Inr (VDict [(ascii ''success'', VBool True),
                        (ascii ''intent'', VStr (ascii ''AUTH'')),
                        (ascii ''formatted_result'',
                         VStr (ascii ''Error initiating auth: '' @ str_exn env e))]),
            s,
            w1 @ [Initiate (user_email s) (auth_config_id s)])"
    by (rule p)
  show "reply_of_result env
             (VDict [(ascii ''success'', VBool True),
                     (ascii ''intent'', VStr (ascii ''AUTH'')),
                     (ascii ''formatted_result'',
                      VStr (ascii ''Error initiating auth: '' @ str_exn env e))])
           = Inr (VStr (ascii ''Error initiating auth: '' @ str_exn env e))"
    by (rule auth_failure_reply)
  show "hd (ascii ''Error initiating auth: '' @ str_exn env e) \<noteq> 10060"
    by (simp add: ascii_def)
  assume h: "(connection_request s = None \<or> is_authenticated s)
              \<and> user_query = message_text content
              \<and> w = w0 @ [SendAcknowledgement]"
  then have c: "\<not> (connection_request s \<noteq> None \<and> \<not> is_authenticated s)"
    by auto
  from h have q: "process_query env s (message_text content) (w0 @ [SendAcknowledgement]) =
           (Inr (VDict [(ascii ''success'', VBool True),
                        (ascii ''intent'', VStr (ascii ''AUTH'')),
                        (ascii ''formatted_result'',
                         VStr (ascii ''Error initiating auth: '' @ str_exn env e))]),
            s,
            w1 @ [Initiate (user_email s) (auth_config_id s)])"
    using p by simp
  show "handle_message env s content w0 =
              (Inr (VStr (ascii ''Error initiating auth: '' @ str_exn env e)),
               s,
               w1 @ [Initiate (user_email s) (auth_config_id s),
                     SendChatMessage (VStr (ascii ''Error initiating auth: '' @ str_exn env e))])"
    unfolding handle_message_def Let_def
    by (simp only: c if_False q prod.case bindE_simps auth_failure_reply sum.case send_reply_str
        append_assoc append_Cons append_Nil)
qed

theorem auth_failure_is_success_result_witness:
  "process_query (demo_env (cc_text (ascii ''{}'')) (js_const (demo_intent ''AUTH'')) gw_fail ini_fail)
     demo_session (ascii ''connect gmail'') [SendAcknowledgement] =
     (Inr (VDict [(ascii ''success'', VBool True),
                  (ascii ''intent'', VStr (ascii ''AUTH'')),
                  (ascii ''formatted_result'',
                   VStr (ascii ''Error initiating auth: invalid auth config''))]),
      demo_session,
      [SendAcknowledgement,
       Completion (intent_request (ascii ''connect gmail'')),
       Initiate (VStr (ascii ''me@example.com'')) (VStr (ascii ''ac_1''))])
   \<and> reply_of_result (demo_env (cc_text (ascii ''{}'')) (js_const (demo_intent ''AUTH'')) gw_fail ini_fail)
       (VDict [(ascii ''success'', VBool True),
               (ascii ''intent'', VStr (ascii ''AUTH'')),
               (ascii ''formatted_result'',
                VStr (ascii ''Error initiating auth: invalid auth config''))])
     = Inr (VStr (ascii ''Error initiating auth: invalid auth config''))
   \<and> handle_message (demo_env (cc_text (ascii ''{}'')) (js_const (demo_intent ''AUTH'')) gw_fail ini_fail)
       demo_session [TextContent (ascii ''connect ''), OtherContent, TextContent (ascii ''gmail'')] [] =
     (Inr (VStr (ascii ''Error initiating auth: invalid auth config'')),
      demo_session,
      [SendAcknowledgement,
       Completion (intent_request (ascii ''connect gmail'')),
       Initiate (VStr (ascii ''me@example.com'')) (VStr (ascii ''ac_1'')),
       SendChatMessage (VStr (ascii ''Error initiating auth: invalid auth config''))])
   \<and> connection_request demo_session = None
   \<and> hd (ascii ''Error initiating auth: invalid auth config'') \<noteq> 10060"
proof -
  let ?E = "demo_env (cc_text (ascii ''{}'')) (js_const (demo_intent ''AUTH'')) gw_fail ini_fail"
  have a: "analyze_user_intent ?E
             (str_strip (re_sub ?E PREFIX_RE [] (ascii ''connect gmail'') True)) [SendAcknowledgement]
           = (VDict [(ascii ''intent'', VStr (ascii ''AUTH'')),
                     (ascii ''parameters'', VDict []),
                     (ascii ''confidence'', VFloat 0.9)],
              [SendAcknowledgement, Completion (intent_request (ascii ''connect gmail''))])"
    by (simp add: demo_cleaned demo_analyze demo_intent_def)
  have i: "map_of [(ascii ''intent'', VStr (ascii ''AUTH'')),
                   (ascii ''parameters'', VDict []),
                   (ascii ''confidence'', VFloat 0.9)] (ascii ''intent'')
           = Some (VStr (ascii ''AUTH''))"
    by simp
  have f: "connected_accounts_initiate ?E
             [SendAcknowledgement, Completion (intent_request (ascii ''connect gmail''))]
             (user_email demo_session) (auth_config_id demo_session)
           = Inl (ServiceError (ascii ''invalid auth config''))"
    by (simp add: demo_env_def ini_fail_def)
  have n: "connection_request demo_session = None"
    by (simp add: demo_session_def GmailAgent_init_def)
  have h: "(connection_request demo_session = None \<or> is_authenticated demo_session)
           \<and> ascii ''connect gmail''
               = message_text [TextContent (ascii ''connect ''), OtherContent, TextContent (ascii ''gmail'')]
           \<and> [SendAcknowledgement] = [] @ [SendAcknowledgement]"
    by (simp add: n message_text_def ascii_def)
  have m: "ascii ''Error initiating auth: '' @ str_exn ?E (ServiceError (ascii ''invalid auth config''))
           = ascii ''Error initiating auth: invalid auth config''"
    by (simp add: demo_env_def ascii_def)
  have u: "user_email demo_session = VStr (ascii ''me@example.com'')"
          "auth_config_id demo_session = VStr (ascii ''ac_1'')"
    by (simp_all add: demo_session_def GmailAgent_init_def)
  note T = auth_failure_is_success_result [OF a i f,
      where content = "[TextContent (ascii ''connect ''), OtherContent, TextContent (ascii ''gmail'')]"
        and ?w0.0 = "[]"]
  show ?thesis
    using T [THEN conjunct1] T [THEN conjunct2, THEN conjunct1]
      T [THEN conjunct2, THEN conjunct2, THEN conjunct1, THEN mp, OF h]
      T [THEN conjunct2, THEN conjunct2, THEN conjunct2] n
    by (simp only: m u append_Cons append_Nil simp_thms)
qed

section \<open>Failures inside the handlers\<close>

text \<open>
  Every handler catches what its \<^verbatim>\<open>try\<close> body raises, whether the exception comes from
  building the instruction, from the completion service or from the gateway, and returns
  \<open>{success: false, error: str(e)}\<close>.
\<close>

lemma handler_exceptions_caught:
  "handle_send_email_try env s p w = (Inl e, w') \<Longrightarrow>
     handle_send_email env s p w = (failure_result env e, w')"
  "handle_search_emails_try env s p w = (Inl e, w') \<Longrightarrow>
     handle_search_emails env s p w = (failure_result env e, w')"
  "handle_delete_emails_try env s p w = (Inl e, w') \<Longrightarrow>
     handle_delete_emails env s p w = (failure_result env e, w')"
  "handle_move_to_trash_try env s p w = (Inl e, w') \<Longrightarrow>
     handle_move_to_trash env s p w = (failure_result env e, w')"
  "handle_get_contacts_try env s p w = (Inl e, w') \<Longrightarrow>
     handle_get_contacts env s p w = (failure_result env e, w')"
  "handle_mark_as_read_try env s p w = (Inl e, w') \<Longrightarrow>
     handle_mark_as_read env s p w = (failure_result env e, w')"
  "handle_mark_as_unread_try env s p w = (Inl e, w') \<Longrightarrow>
     handle_mark_as_unread env s p w = (failure_result env e, w')"
  "handle_read_email_try env s p w = (Inl e, w') \<Longrightarrow>
     handle_read_email env s p w = (failure_result env e, w')"
  "handle_create_label_try env s p w = (Inl e, w') \<Longrightarrow>
     handle_create_label env s p w = (failure_result env e, w')"
  "handle_get_profile_try env s p w = (Inl e, w') \<Longrightarrow>
     handle_get_profile env s p w = (failure_result env e, w')"
  by (simp_all add: handle_send_email_def handle_search_emails_def handle_delete_emails_def
      handle_move_to_trash_def handle_get_contacts_def handle_mark_as_read_def
      handle_mark_as_unread_def handle_read_email_def handle_create_label_def
      handle_get_profile_def catch_handler_def)

lemma run_tools_service_error:
  "chat_completions_create env w (tool_request s system_content prompt) = Inl e \<Longrightarrow>
   run_tools env s system_content prompt w =
     (Inl e, w @ [Completion (tool_request s system_content prompt)])"
  by (simp add: run_tools_def bindW_def create_completion_def)

lemma create_label_service_error:
  assumes "map_of p (ascii ''label_name'') = Some (VStr name)" and "name \<noteq> []"
    and "chat_completions_create env w
           (tool_request s (ascii ''Use GMAIL_CREATE_LABEL to create a new label.'')
              (ascii ''Create a Gmail label named '' @ [39] @ name @ [39]
               @ ascii '' using GMAIL_CREATE_LABEL.'')) = Inl e"
  shows "fst (handle_create_label env s (VDict p) w) =
     VDict [(ascii ''success'', VBool False), (ascii ''error'', VStr (str_exn env e))]"
  using assms
  by (simp add: handle_create_label_def handle_create_label_try_def catch_handler_def
      failure_result_def bindW_def pureW_def py_str_def run_tools_service_error)

text \<open>
  Claim C3 asks for the shape \<open>{success: false, error: <message>}\<close> at every failure of a
  handler, missing required parameters included. The two handlers with a required
  parameter do not return that shape when it is missing: with no \<^verbatim>\<open>recipient\<close>,
  \<^verbatim>\<open>_handle_send_email\<close> returns \<^verbatim>\<open>{"error": "No recipient specified"}\<close>, and with no
  \<^verbatim>\<open>label_name\<close>, \<^verbatim>\<open>_handle_create_label\<close> returns \<^verbatim>\<open>{"error": "No label name specified"}\<close>;
  neither result has a \<^verbatim>\<open>success\<close> field, and no external call is made. The \<^verbatim>\<open>except\<close>
  clause of the same handlers does build the claimed shape.
\<close>

theorem missing_parameter_result_shape:
  "handle_send_email env s (VDict [(ascii ''subject'', VStr (ascii ''Hello''))]) w =
     (VDict [(ascii ''error'', VStr (ascii ''No recipient specified''))], w)
   \<and> handle_create_label env s (VDict []) w =
     (VDict [(ascii ''error'', VStr (ascii ''No label name specified''))], w)
   \<and> py_get (VDict [(ascii ''error'', VStr (ascii ''No recipient specified''))])
         (ascii ''success'') VNone = Inr VNone
   \<and> VDict [(ascii ''error'', VStr (ascii ''No recipient specified''))]
       \<noteq> VDict [(ascii ''success'', VBool False),
                (ascii ''error'', VStr (ascii ''No recipient specified''))]"
  by (simp add: handle_send_email_def handle_send_email_try_def handle_create_label_def
      handle_create_label_try_def catch_handler_def bindW_def pureW_def)

section \<open>Process start\<close>

text \<open>
  Called with both arguments, the constructor creates a session that holds the account
  identifier and the auth-config reference and has no pending request, no connection and
  no tool handles.
\<close>

lemma GmailAgent_both_arguments:
  "GmailAgent [(''user_email'', email), (''auth_config_id'', config_id)] =
     Inr \<lparr>user_email = email, auth_config_id = config_id, tools = VNone,
          connected_account = VNone, connection_request = None\<rparr>"
  by (simp add: GmailAgent_def GmailAgent_init_def)

text \<open>
  Claim C2 says that at process start one session is created holding both the account
  identifier and the auth-config reference. The module-level call passes only
  \<^verbatim>\<open>auth_config_id\<close>, and \<^verbatim>\<open>user_email\<close> is a required parameter: whatever the process
  environment holds, the call raises \<^verbatim>\<open>TypeError\<close> and no session exists.
\<close>

theorem gmail_agent_not_created:
  "gmail_agent getenv = Inl TypeError"
  by (simp add: gmail_agent_def GmailAgent_def)

end
